theory Spec2Isabelle
  imports Main "HOL-Library.Sublist"
begin

section \<open>Go standard-library functions used by the image builder\<close>

text \<open>
  The Go standard library is not part of the repository; the functions the source calls
  are modelled from their documented behaviour. Strings are byte lists.
\<close>

definition HasPrefix :: "string \<Rightarrow> string \<Rightarrow> bool" where
  \<comment> \<open>\<^verbatim>\<open>len(s) >= len(prefix) && s[:len(prefix)] == prefix\<close>\<close>
  "HasPrefix s p = (length p \<le> length s \<and> take (length p) s = p)"

definition HasSuffix :: "string \<Rightarrow> string \<Rightarrow> bool" where
  "HasSuffix s x = (length x \<le> length s \<and> drop (length s - length x) s = x)"

definition TrimPrefix :: "string \<Rightarrow> string \<Rightarrow> string" where
  "TrimPrefix s p = (if HasPrefix s p then drop (length p) s else s)"

definition TrimSuffix :: "string \<Rightarrow> string \<Rightarrow> string" where
  "TrimSuffix s x = (if HasSuffix s x then take (length s - length x) s else s)"

fun Index :: "string \<Rightarrow> string \<Rightarrow> int" where
  \<comment> \<open>index of the first occurrence of \<open>sub\<close> in \<open>s\<close>, or -1\<close>
  "Index [] sub = (if sub = [] then 0 else - 1)"
| "Index (c # cs) sub =
     (if HasPrefix (c # cs) sub then 0
      else (let k = Index cs sub in if k < 0 then - 1 else k + 1))"

fun LastIndex :: "string \<Rightarrow> string \<Rightarrow> int" where
  \<comment> \<open>index of the last occurrence of \<open>sub\<close> in \<open>s\<close>, or -1\<close>
  "LastIndex [] sub = (if sub = [] then 0 else - 1)"
| "LastIndex (c # cs) sub =
     (let k = LastIndex cs sub
      in if 0 \<le> k then k + 1 else if HasPrefix (c # cs) sub then 0 else - 1)"

definition Contains :: "string \<Rightarrow> string \<Rightarrow> bool" where
  "Contains s sub = (0 \<le> Index s sub)"

subsection \<open>\<^verbatim>\<open>path/filepath\<close> on Unix\<close>

fun split_on :: "char \<Rightarrow> string \<Rightarrow> string list" where
  \<comment> \<open>\<^verbatim>\<open>strings.Split\<close> at a one-byte separator: the pieces between the separators\<close>
  "split_on sep [] = [[]]"
| "split_on sep (c # cs) =
     (if c = sep then [] # split_on sep cs
      else (case split_on sep cs of [] \<Rightarrow> [[c]] | x # xs \<Rightarrow> (c # x) # xs))"

definition split_sep :: "string \<Rightarrow> string list" where
  \<comment> \<open>the elements between the separators \<^verbatim>\<open>/\<close>\<close>
  "split_sep = split_on CHR ''/''"

definition split_lines :: "string \<Rightarrow> string list" where
  \<comment> \<open>\<^verbatim>\<open>strings.Split(s, "\n")\<close>\<close>
  "split_lines = split_on (CHR 0x0A)"

subsection \<open>Decimal numbers\<close>

definition digit_char :: "nat \<Rightarrow> char" where
  "digit_char n = ''0123456789'' ! (n mod 10)"

fun decimal :: "nat \<Rightarrow> string" where
  \<comment> \<open>\<^verbatim>\<open>%d\<close> of a non-negative number\<close>
  "decimal n = (if n < 10 then [digit_char n] else decimal (n div 10) @ [digit_char n])"

declare decimal.simps [simp del]

definition appendInt :: "nat \<Rightarrow> nat \<Rightarrow> string" where
  \<comment> \<open>the decimal form of \<open>n\<close>, zero-padded to at least \<open>width\<close> digits (package \<^verbatim>\<open>time\<close>)\<close>
  "appendInt n width = replicate (width - length (decimal n)) CHR ''0'' @ decimal n"

fun join_sep :: "string list \<Rightarrow> string" where
  \<comment> \<open>\<^verbatim>\<open>strings.Join(elems, "/")\<close>\<close>
  "join_sep [] = []"
| "join_sep [x] = x"
| "join_sep (x # y # ys) = x @ ''/'' @ join_sep (y # ys)"

definition clean_step :: "bool \<Rightarrow> string list \<Rightarrow> string \<Rightarrow> string list" where
  \<comment> \<open>one element of \<^verbatim>\<open>Clean\<close>; the elements kept so far are held last first\<close>
  "clean_step rooted st e =
     (if e = [] \<or> e = ''.'' then st
      else if e = ''..'' then
        (case st of
           [] \<Rightarrow> if rooted then [] else [''..'']
         | t # ts \<Rightarrow> if t = ''..'' then ''..'' # t # ts else ts)
      else e # st)"

definition clean_elems :: "bool \<Rightarrow> string list \<Rightarrow> string list" where
  "clean_elems rooted es = rev (foldl (clean_step rooted) [] es)"

definition Clean :: "string \<Rightarrow> string" where
  \<comment> \<open>\<^verbatim>\<open>filepath.Clean\<close>: single separators, no \<^verbatim>\<open>.\<close> elements, inner \<^verbatim>\<open>..\<close>
      elements removed with the element before them, \<^verbatim>\<open>..\<close> dropped at the root\<close>
  "Clean p =
     (if p = [] then ''.''
      else
        (let rooted = (hd p = CHR ''/'');
             body = join_sep (clean_elems rooted (split_sep p))
         in if rooted then ''/'' @ body else if body = [] then ''.'' else body))"

definition Join :: "string list \<Rightarrow> string" where
  \<comment> \<open>\<^verbatim>\<open>filepath.Join\<close>: from the first non-empty element on, joined and cleaned\<close>
  "Join elems =
     (case dropWhile (\<lambda>e. e = []) elems of [] \<Rightarrow> [] | es \<Rightarrow> Clean (join_sep es))"

section \<open>Errors\<close>

text \<open>
  A Go \<^verbatim>\<open>error\<close> value: its message, and the log lines it carries when some error in its
  chain implements \<^verbatim>\<open>Logs() []string\<close> (what \<^verbatim>\<open>errors.As\<close> finds). A nil-pointer
  dereference is a panic.
\<close>

datatype gerror = GoError string "string list option" | NilPointerPanic

fun wrap_error :: "string \<Rightarrow> gerror \<Rightarrow> gerror" where
  \<comment> \<open>\<^verbatim>\<open>fmt.Errorf("<prefix>: %w", err)\<close>\<close>
  "wrap_error p (GoError m l) = GoError (p @ '': '' @ m) l"
| "wrap_error p NilPointerPanic = NilPointerPanic"

definition errorf :: "string \<Rightarrow> gerror" where
  "errorf m = GoError m None"

section \<open>The ImageBuild resource\<close>

text \<open>
  The API types are generated code outside the sources at hand; the records hold the fields
  the image builder reads and writes. A Go pointer field is an \<open>option\<close>. The name of a
  resource is always set (the code dereferences it without a check). A creation timestamp
  is held as the calendar fields \<^verbatim>\<open>Format\<close> prints; the times of the status are instants
  in nanoseconds.
\<close>

record BootcExport =
  Export_Type :: string
  Export_Architecture :: "string option"

record BootcImageRef =
  Image_Type :: string
  Image_Architecture :: "string option"
  StorageRef :: string

record ContainerRegistryConfig =
  Url :: string

record ImageBuildSpec =
  ContainerRegistry :: "ContainerRegistryConfig option"
  BootcExports :: "BootcExport list option"
  FlightctlConfig :: "unit option"

record Timestamp =
  Year :: nat
  Month :: nat
  Day :: nat
  Hour :: nat
  Minute :: nat
  Second :: nat

record ObjectMeta =
  Name :: string
  Annotations :: "(string \<rightharpoonup> string) option"
  CreationTimestamp :: "Timestamp option"

record ImageBuildStatus =
  Phase :: "string option"
  Message :: "string option"
  ContainerImageRef :: "string option"
  BootcImageRefs :: "BootcImageRef list option"
  StartTime :: "int option"
  CompletionTime :: "int option"
  Logs :: "string list option"

record ImageBuild =
  Metadata :: ObjectMeta
  Spec :: ImageBuildSpec
  Status :: "ImageBuildStatus option"

definition empty_status :: ImageBuildStatus where
  \<comment> \<open>\<^verbatim>\<open>&api.ImageBuildStatus{}\<close>\<close>
  "empty_status =
     \<lparr>Phase = None, Message = None, ContainerImageRef = None, BootcImageRefs = None,
      StartTime = None, CompletionTime = None, Logs = None\<rparr>"

definition status_of :: "ImageBuild \<Rightarrow> ImageBuildStatus" where
  \<comment> \<open>the status after \<^verbatim>\<open>if imageBuild.Status == nil { imageBuild.Status = &api.ImageBuildStatus{} }\<close>\<close>
  "status_of ib = (case Status ib of None \<Rightarrow> empty_status | Some st \<Rightarrow> st)"

definition cancel_annotation :: string where
  "cancel_annotation = ''imagebuilder.flightctl.io/cancel''"

definition retry_annotation :: string where
  "retry_annotation = ''imagebuilder.flightctl.io/retry''"

definition annotation_is_true :: "ImageBuild \<Rightarrow> string \<Rightarrow> bool" where
  \<comment> \<open>\<^verbatim>\<open>Annotations != nil\<close>, the key is present and its value is \<^verbatim>\<open>"true"\<close>\<close>
  "annotation_is_true ib key =
     (case Annotations (Metadata ib) of None \<Rightarrow> False | Some m \<Rightarrow> m key = Some ''true'')"

section \<open>Image references (container builder)\<close>

definition format_timestamp :: "Timestamp \<Rightarrow> string" where
  \<comment> \<open>\<^verbatim>\<open>Format("20060102-150405")\<close>\<close>
  "format_timestamp ts =
     appendInt (Year ts) 4 @ appendInt (Month ts) 2 @ appendInt (Day ts) 2 @ ''-'' @
     appendInt (Hour ts) 2 @ appendInt (Minute ts) 2 @ appendInt (Second ts) 2"

definition image_tag :: "ImageBuild \<Rightarrow> string" where
  \<comment> \<open>\<^verbatim>\<open>tag := "latest"\<close>, replaced by the formatted creation timestamp when there is one\<close>
  "image_tag ib =
     (case CreationTimestamp (Metadata ib) of
        None \<Rightarrow> ''latest''
      | Some ts \<Rightarrow> format_timestamp ts)"

definition generateImageName :: "ImageBuild \<Rightarrow> string" where
  "generateImageName ib =
     (case ContainerRegistry (Spec ib) of
        None \<Rightarrow> Name (Metadata ib) @ '':'' @ image_tag ib
      | Some reg \<Rightarrow>
          if Url reg = [] then Name (Metadata ib) @ '':'' @ image_tag ib
          else
            (let registryURL = TrimSuffix (TrimPrefix (TrimPrefix (Url reg) ''https://'')
                                 ''http://'') ''/''
             in if Contains registryURL ''/'' then
                  (if Contains registryURL '':'' \<and>
                      Index registryURL '':'' > LastIndex registryURL ''/''
                   then registryURL
                   else registryURL @ '':'' @ image_tag ib)
                else registryURL @ ''/'' @ Name (Metadata ib) @ '':'' @ image_tag ib))"

text \<open>
  The rule of the specification: a registry URL with a path is used as it is exactly when
  a tag follows its last slash, that is, when a colon occurs after the last slash.
\<close>

definition tag_after_last_slash :: "string \<Rightarrow> bool" where
  "tag_after_last_slash url = (LastIndex url '':'' > LastIndex url ''/'')"

definition spec_image_ref :: "ImageBuild \<Rightarrow> string" where
  "spec_image_ref ib =
     (case ContainerRegistry (Spec ib) of
        None \<Rightarrow> Name (Metadata ib) @ '':'' @ image_tag ib
      | Some reg \<Rightarrow>
          if Url reg = [] then Name (Metadata ib) @ '':'' @ image_tag ib
          else
            (let url = TrimSuffix (TrimPrefix (TrimPrefix (Url reg) ''https://'')
                         ''http://'') ''/''
             in if CHR ''/'' \<in> set url then
                  (if tag_after_last_slash url then url else url @ '':'' @ image_tag ib)
                else url @ ''/'' @ Name (Metadata ib) @ '':'' @ image_tag ib))"

definition build_with_registry :: "string \<Rightarrow> string \<Rightarrow> Timestamp option \<Rightarrow> ImageBuild" where
  \<comment> \<open>a build with the given name, registry URL (none when empty) and creation timestamp\<close>
  "build_with_registry name url ts =
     \<lparr>Metadata = \<lparr>Name = name, Annotations = None, CreationTimestamp = ts\<rparr>,
      Spec = \<lparr>ContainerRegistry = (if url = [] then None else Some \<lparr>Url = url\<rparr>),
              BootcExports = None, FlightctlConfig = None\<rparr>,
      Status = None\<rparr>"

definition jan4 :: Timestamp where
  \<comment> \<open>2025-01-04T14:30:22Z\<close>
  "jan4 = \<lparr>Year = 2025, Month = 1, Day = 4, Hour = 14, Minute = 30, Second = 22\<rparr>"

section \<open>Configuration and storage\<close>

text \<open>
  The configuration types live in a package outside the sources at hand; the records hold
  the fields the image builder reads.
\<close>

record S3Config =
  Endpoint :: string
  Bucket :: string
  Region :: string
  AccessKey :: string
  SecretKey :: string

record StorageConfig =
  Storage_Type :: string
  LocalPath :: string
  PVCName :: string
  S3 :: "S3Config option"

record ImageBuilderConfig =
  BuildNamespace :: string
  Storage :: "StorageConfig option"

record Config =
  ImageBuilder :: "ImageBuilderConfig option"
  Service :: "unit option"

record StorageReference =
  Ref_Type :: string
  Ref_Path :: string
  Ref_Size :: int
  Ref_Metadata :: "(string \<times> string) list"

text \<open>The file system and the object store answer through these parameters.\<close>

record sys =
  stat_size :: "string \<Rightarrow> int option"
  mkdir_all :: "string \<Rightarrow> string option"
  copy_file :: "string \<Rightarrow> string \<Rightarrow> string + int"
  create_file :: "string \<Rightarrow> string option"
  stream_copy :: "string \<Rightarrow> string + int"
  s3_session :: "string option"
  s3_open :: "string \<Rightarrow> string + int"
  s3_put :: "string \<Rightarrow> string \<Rightarrow> string option"

definition getImageExtensionFromString :: "string \<Rightarrow> string" where
  "getImageExtensionFromString imageType =
     (case map_of
        [(''iso'', ''iso''), (''qcow2'', ''qcow2''), (''vmdk'', ''vmdk''),
         (''raw'', ''raw''), (''ami'', ''raw''), (''tar'', ''tar'')] imageType of
        Some ext \<Rightarrow> ext
      | None \<Rightarrow> imageType)"

definition artifact_file :: "string \<Rightarrow> string" where
  \<comment> \<open>\<^verbatim>\<open>fmt.Sprintf("%s.%s", imageType, getImageExtensionFromString(imageType))\<close>\<close>
  "artifact_file imageType = imageType @ ''.'' @ getImageExtensionFromString imageType"

definition storage_of :: "Config \<Rightarrow> StorageConfig option" where
  \<comment> \<open>\<^verbatim>\<open>config.ImageBuilder == nil || config.ImageBuilder.Storage == nil\<close> gives None\<close>
  "storage_of cfg = (case ImageBuilder cfg of None \<Rightarrow> None | Some ib \<Rightarrow> Storage ib)"

definition storeToLocal ::
  "sys \<Rightarrow> string \<Rightarrow> string \<Rightarrow> string \<Rightarrow> string \<Rightarrow> gerror + StorageReference" where
  "storeToLocal io imageName sourceFile imageType basePath0 =
     (let basePath = (if basePath0 = [] then ''/var/lib/flightctl/images'' else basePath0);
          targetDir = Join [basePath, imageName]
      in case mkdir_all io targetDir of
           Some e \<Rightarrow> Inl (errorf (''failed to create target directory: '' @ e))
         | None \<Rightarrow>
             (let targetFile = Join [targetDir, artifact_file imageType]
              in case copy_file io sourceFile targetFile of
                   Inl e \<Rightarrow> Inl (errorf (''failed to copy file: '' @ e))
                 | Inr sz \<Rightarrow>
                     Inr \<lparr>Ref_Type = ''local'', Ref_Path = targetFile, Ref_Size = sz,
                          Ref_Metadata =
                            [(''image_name'', imageName), (''image_type'', imageType)]\<rparr>))"

definition storeToPVC ::
  "sys \<Rightarrow> string \<Rightarrow> string \<Rightarrow> string \<Rightarrow> string \<Rightarrow> gerror + StorageReference" where
  "storeToPVC io imageName sourceFile imageType pvcName =
     (let pvcBasePath = ''/mnt/pvc/'' @ pvcName;
          targetDir = Join [pvcBasePath, imageName]
      in case mkdir_all io targetDir of
           Some e \<Rightarrow> Inl (errorf (''failed to create target directory in PVC: '' @ e))
         | None \<Rightarrow>
             (let targetFile = Join [targetDir, artifact_file imageType]
              in case copy_file io sourceFile targetFile of
                   Inl e \<Rightarrow> Inl (errorf (''failed to copy file to PVC: '' @ e))
                 | Inr sz \<Rightarrow>
                     Inr \<lparr>Ref_Type = ''pvc'', Ref_Path = targetFile, Ref_Size = sz,
                          Ref_Metadata =
                            [(''image_name'', imageName), (''image_type'', imageType),
                             (''pvc_name'', pvcName)]\<rparr>))"

definition storeToS3 ::
  "sys \<Rightarrow> string \<Rightarrow> string \<Rightarrow> string \<Rightarrow> S3Config \<Rightarrow> gerror + StorageReference" where
  "storeToS3 io imageName sourceFile imageType s3Config =
     (case s3_session io of
        Some e \<Rightarrow> Inl (errorf (''failed to create AWS session: '' @ e))
      | None \<Rightarrow>
          (case s3_open io sourceFile of
             Inl e \<Rightarrow> Inl (errorf e)
           | Inr sz \<Rightarrow>
               (let s3Key = imageName @ ''/'' @ artifact_file imageType
                in case s3_put io (Bucket s3Config) s3Key of
                     Some e \<Rightarrow> Inl (errorf (''failed to upload to S3: '' @ e))
                   | None \<Rightarrow>
                       Inr \<lparr>Ref_Type = ''s3'',
                            Ref_Path = ''s3://'' @ Bucket s3Config @ ''/'' @ s3Key,
                            Ref_Size = sz,
                            Ref_Metadata =
                              [(''image_name'', imageName), (''image_type'', imageType),
                               (''bucket'', Bucket s3Config), (''key'', s3Key)]\<rparr>)))"

definition StoreBootcImage ::
  "Config \<Rightarrow> sys \<Rightarrow> string \<Rightarrow> string \<Rightarrow> string \<Rightarrow> gerror + StorageReference" where
  "StoreBootcImage cfg io imageName sourceFile imageType =
     (if HasPrefix sourceFile ''uploaded:'' then
        (case storage_of cfg of
           None \<Rightarrow> Inl (errorf ''storage configuration not found'')
         | Some storage \<Rightarrow>
             (let uploaded = (\<lambda>storagePath sz.
                    Inr \<lparr>Ref_Type = Storage_Type storage, Ref_Path = storagePath,
                         Ref_Size = sz,
                         Ref_Metadata =
                           [(''image_name'', imageName), (''image_type'', imageType),
                            (''uploaded'', ''true'')]\<rparr>);
                  stat = (\<lambda>p. case stat_size io p of Some n \<Rightarrow> n | None \<Rightarrow> 0)
              in if Storage_Type storage = ''local'' then
                   (let basePath =
                          (if LocalPath storage = [] then ''/var/lib/flightctl/images''
                           else LocalPath storage);
                        storagePath = Join [basePath, imageName, artifact_file imageType]
                    in uploaded storagePath (stat storagePath))
                 else if Storage_Type storage = ''pvc'' then
                   (let pvcBasePath = ''/mnt/pvc/'' @ PVCName storage;
                        storagePath = Join [pvcBasePath, imageName, artifact_file imageType]
                    in uploaded storagePath (stat storagePath))
                 else if Storage_Type storage = ''s3'' then
                   (case S3 storage of
                      None \<Rightarrow> Inl NilPointerPanic
                    | Some s3c \<Rightarrow>
                        uploaded
                          (''s3://'' @ Bucket s3c @ ''/'' @ imageName @ ''/''
                             @ artifact_file imageType) 0)
                 else Inl (errorf (''unsupported storage type: '' @ Storage_Type storage))))
      else
        (case storage_of cfg of
           None \<Rightarrow> Inl (errorf ''storage configuration not found'')
         | Some storage \<Rightarrow>
             if Storage_Type storage = ''local'' then
               storeToLocal io imageName sourceFile imageType (LocalPath storage)
             else if Storage_Type storage = ''pvc'' then
               storeToPVC io imageName sourceFile imageType (PVCName storage)
             else if Storage_Type storage = ''s3'' then
               (case S3 storage of
                  None \<Rightarrow> Inl NilPointerPanic
                | Some s3c \<Rightarrow> storeToS3 io imageName sourceFile imageType s3c)
             else Inl (errorf (''unsupported storage type: '' @ Storage_Type storage))))"

text \<open>
  The path the specification gives for a stored artifact:
  \<^verbatim>\<open><base>/<name>/<type>.<ext>\<close>, with the base of each storage backend.
\<close>

definition spec_extension :: "string \<Rightarrow> string" where
  "spec_extension t = (if t = ''ami'' then ''raw'' else t)"

definition spec_storage_base :: "StorageConfig \<Rightarrow> string" where
  "spec_storage_base storage =
     (if Storage_Type storage = ''local'' then
        (if LocalPath storage = [] then ''/var/lib/flightctl/images'' else LocalPath storage)
      else if Storage_Type storage = ''pvc'' then ''/mnt/pvc/'' @ PVCName storage
      else ''s3://'' @ (case S3 storage of Some c \<Rightarrow> Bucket c | None \<Rightarrow> []))"

definition spec_artifact_path :: "string \<Rightarrow> string \<Rightarrow> string \<Rightarrow> string" where
  "spec_artifact_path base name t = base @ ''/'' @ name @ ''/'' @ t @ ''.'' @ spec_extension t"

definition simple_segment :: "string \<Rightarrow> bool" where
  \<comment> \<open>a non-empty path element that \<^verbatim>\<open>Clean\<close> keeps: no separator, not \<^verbatim>\<open>.\<close> or \<^verbatim>\<open>..\<close>\<close>
  "simple_segment s = (s \<noteq> [] \<and> CHR ''/'' \<notin> set s \<and> s \<noteq> ''.'' \<and> s \<noteq> ''..'')"

definition clean_rooted_base :: "StorageConfig \<Rightarrow> bool" where
  \<comment> \<open>the base directory is an absolute path in clean form, other than the root;
      an object-store base is a URL and is not cleaned\<close>
  "clean_rooted_base storage =
     (Storage_Type storage = ''s3'' \<or>
      (let b = spec_storage_base storage
       in b \<noteq> [] \<and> hd b = CHR ''/'' \<and> b \<noteq> ''/'' \<and> Clean b = b))"

definition uploaded_sentinel :: "string \<Rightarrow> string \<Rightarrow> string" where
  \<comment> \<open>\<^verbatim>\<open>fmt.Sprintf("uploaded:%s/%s", name, export.Type)\<close>, the marker of an uploaded artifact\<close>
  "uploaded_sentinel name t = ''uploaded:'' @ name @ ''/'' @ t"

definition supported_storage :: "StorageConfig \<Rightarrow> bool" where
  \<comment> \<open>the storage types \<^verbatim>\<open>StoreBootcImage\<close> has a case for\<close>
  "supported_storage storage =
     (Storage_Type storage = ''local'' \<or> Storage_Type storage = ''pvc'' \<or>
      (Storage_Type storage = ''s3'' \<and> S3 storage \<noteq> None))"

section \<open>The orchestrator\<close>

text \<open>
  The catalog, the cluster and the clock are outside the program; what they answer is a
  parameter of the model. A run returns the resource as the orchestrator holds it in
  memory, the requests it sent (status replacements, patches, deletions) in order, and the
  error it returns (\<open>None\<close> for \<^verbatim>\<open>nil\<close>).
\<close>

datatype api_response = TransportError string | Response nat

datatype get_response = GetFailed string | GetResponse nat "ImageBuild option"

datatype list_response = ListFailed string | ListResponse nat "ImageBuild list option"

datatype site = AtStart | AtCertificate | AtContainerfile | AtContainerBuild | AtBootc

datatype job_outcome =
    SetupFailed string
  | JobFailed string "string list"
  | JobSucceeded

datatype patch_op = Remove string

datatype request =
    ReplaceStatus string ImageBuild
  | PatchBuild string "patch_op list"
  | DeleteJob string
  | DeleteConfigMap string

record Pod =
  Pod_Name :: string
  Labels :: "string \<rightharpoonup> string"
  Age :: int

record env =
  config :: Config
  files :: sys
  get_build :: "site \<Rightarrow> get_response"
  list_builds :: list_response
  replace_status :: "ImageBuild \<Rightarrow> api_response"
  now_at :: "string \<Rightarrow> int"
  request_certificate :: "string \<Rightarrow> gerror + (string \<times> string)"
  generate_containerfile :: "ImageBuildSpec \<Rightarrow> string \<Rightarrow> string \<Rightarrow> gerror + string"
  container_job :: job_outcome
  bootc_job :: "BootcExport \<Rightarrow> job_outcome"
  list_pods :: "string \<Rightarrow> gerror + Pod list"
  get_pod_logs :: "string \<Rightarrow> gerror + string"
  list_jobs :: "string \<Rightarrow> gerror + string list"

record run =
  build :: ImageBuild
  requests :: "request list"
  result :: "gerror option"

fun error_message :: "gerror \<Rightarrow> string" where
  "error_message (GoError m l) = m"
| "error_message NilPointerPanic =
     ''runtime error: invalid memory address or nil pointer dereference''"

fun error_logs :: "gerror \<Rightarrow> string list option" where
  \<comment> \<open>\<^verbatim>\<open>errors.As(buildErr, &logsErr)\<close> and \<^verbatim>\<open>logsErr.Logs()\<close>\<close>
  "error_logs (GoError m l) = l"
| "error_logs NilPointerPanic = None"

definition status_write_error :: "string \<Rightarrow> api_response \<Rightarrow> gerror option" where
  \<comment> \<open>the error of a status replacement: a transport error, or a status code other than 200\<close>
  "status_write_error what resp =
     (case resp of
        TransportError e \<Rightarrow> Some (errorf (what @ '': '' @ e))
      | Response code \<Rightarrow>
          if code \<noteq> 200 then
            Some (errorf (''failed to update ImageBuild status, status code: '' @ decimal code))
          else None)"

definition updateStatus :: "env \<Rightarrow> ImageBuild \<Rightarrow> string \<Rightarrow> string \<Rightarrow> run" where
  "updateStatus e ib phase message =
     (let now = now_at e phase;
          st = (status_of ib)\<lparr>Phase := Some phase, Message := Some message\<rparr>;
          st' = (if phase = ''Building'' \<and> StartTime st = None
                 then st\<lparr>StartTime := Some now\<rparr> else st);
          ib' = ib\<lparr>Status := Some st'\<rparr>
      in \<lparr>build = ib', requests = [ReplaceStatus (Name (Metadata ib)) ib'],
          result = status_write_error ''failed to update ImageBuild status''
                     (replace_status e ib')\<rparr>)"

definition updateStatusWithContainerImage :: "env \<Rightarrow> ImageBuild \<Rightarrow> string \<Rightarrow> run" where
  "updateStatusWithContainerImage e ib containerImageRef =
     (let st = (status_of ib)\<lparr>ContainerImageRef := Some containerImageRef\<rparr>;
          st' = st\<lparr>Phase := Some ''Pushing'',
                    Message := Some ''Container image built successfully''\<rparr>;
          ib' = ib\<lparr>Status := Some st'\<rparr>
      in \<lparr>build = ib', requests = [ReplaceStatus (Name (Metadata ib)) ib'],
          result = status_write_error ''failed to update ImageBuild status''
                     (replace_status e ib')\<rparr>)"

definition completeBuild ::
  "env \<Rightarrow> ImageBuild \<Rightarrow> string \<Rightarrow> BootcImageRef list \<Rightarrow> run" where
  "completeBuild e ib containerImageRef bootcRefs =
     (let now = now_at e ''Completed'';
          st = (status_of ib)\<lparr>Phase := Some ''Completed'',
                 Message := Some ''Image build completed successfully'',
                 ContainerImageRef := Some containerImageRef,
                 CompletionTime := Some now\<rparr>;
          st' = (if 0 < length bootcRefs then st\<lparr>BootcImageRefs := Some bootcRefs\<rparr> else st);
          ib' = ib\<lparr>Status := Some st'\<rparr>
      in \<lparr>build = ib', requests = [ReplaceStatus (Name (Metadata ib)) ib'],
          result = status_write_error ''failed to update ImageBuild status to completed''
                     (replace_status e ib')\<rparr>)"

definition failBuild :: "env \<Rightarrow> ImageBuild \<Rightarrow> gerror \<Rightarrow> run" where
  "failBuild e ib buildErr =
     (let now = now_at e ''Failed'';
          st = (status_of ib)\<lparr>Phase := Some ''Failed'',
                 Message := Some (''Build failed: '' @ error_message buildErr),
                 CompletionTime := Some now\<rparr>;
          st' = (case error_logs buildErr of
                   None \<Rightarrow> st
                 | Some logs \<Rightarrow> if 0 < length logs then st\<lparr>Logs := Some logs\<rparr> else st);
          ib' = ib\<lparr>Status := Some st'\<rparr>
      in \<lparr>build = ib', requests = [ReplaceStatus (Name (Metadata ib)) ib'],
          result = Some buildErr\<rparr>)"

definition isCancelled :: "env \<Rightarrow> site \<Rightarrow> ImageBuild \<Rightarrow> bool" where
  "isCancelled e at ib =
     (case get_build e at of
        GetFailed err \<Rightarrow> annotation_is_true ib cancel_annotation
      | GetResponse code body \<Rightarrow>
          (case body of
             None \<Rightarrow> annotation_is_true ib cancel_annotation
           | Some latest \<Rightarrow>
               if code \<noteq> 200 then annotation_is_true ib cancel_annotation
               else annotation_is_true latest cancel_annotation))"

definition pod_log_lines :: "env \<Rightarrow> Pod \<Rightarrow> string list" where
  \<comment> \<open>the lines one pod adds to the logs of a cancelled build\<close>
  "pod_log_lines e pod =
     (case get_pod_logs e (Pod_Name pod) of
        Inl err \<Rightarrow> []
      | Inr podLog \<Rightarrow>
          if 0 < length podLog then
            (''=== Logs from pod '' @ Pod_Name pod @ '' (before cancellation) ==='')
              # split_lines podLog
          else [])"

definition CancelBuild :: "env \<Rightarrow> ImageBuild \<Rightarrow> string \<Rightarrow> run" where
  "CancelBuild e ib reason =
     (let name = Name (Metadata ib);
          configMapName = ''containerfile-'' @ name;
          labelSelector = ''imagebuild='' @ name;
          logs = (case list_pods e labelSelector of
                    Inl err \<Rightarrow> []
                  | Inr pods \<Rightarrow> concat (map (pod_log_lines e) pods));
          deletions = (case list_jobs e labelSelector of
                         Inl err \<Rightarrow> []
                       | Inr jobs \<Rightarrow> map DeleteJob jobs);
          patch = PatchBuild name
                    [Remove ''/metadata/annotations/imagebuilder.flightctl.io~1cancel''];
          now = now_at e ''Cancelled'';
          st = (status_of ib)\<lparr>Phase := Some ''Cancelled'',
                 Message := Some (''Build cancelled: '' @ reason),
                 CompletionTime := Some now\<rparr>;
          st' = (if 0 < length logs then st\<lparr>Logs := Some logs\<rparr> else st);
          ib' = ib\<lparr>Status := Some st'\<rparr>
      in \<lparr>build = ib',
          requests = deletions @ [DeleteConfigMap configMapName, patch,
                                  ReplaceStatus name ib'],
          result =
            (case status_write_error ''failed to update ImageBuild status''
                    (replace_status e ib') of
               Some err \<Rightarrow> Some err
             | None \<Rightarrow> Some (errorf (''build cancelled: '' @ reason)))\<rparr>)"

definition cancelBuild :: "env \<Rightarrow> ImageBuild \<Rightarrow> string \<Rightarrow> run" where
  "cancelBuild e ib reason = CancelBuild e ib reason"

record BootcImageResult =
  Result_Type :: string
  Result_Architecture :: string
  Result_Path :: string

definition getArchitecture :: "string option \<Rightarrow> string" where
  "getArchitecture arch = (case arch of None \<Rightarrow> ''x86_64'' | Some a \<Rightarrow> a)"

definition export_result :: "ImageBuild \<Rightarrow> BootcExport \<Rightarrow> BootcImageResult" where
  \<comment> \<open>the result of an export whose workload succeeded: the artifact was uploaded\<close>
  "export_result ib export =
     \<lparr>Result_Type = Export_Type export,
      Result_Architecture = getArchitecture (Export_Architecture export),
      Result_Path = uploaded_sentinel (Name (Metadata ib)) (Export_Type export)\<rparr>"

definition buildBootcImage ::
  "env \<Rightarrow> ImageBuild \<Rightarrow> BootcExport \<Rightarrow> request list \<times> (gerror + BootcImageResult)" where
  \<comment> \<open>one workload \<^verbatim>\<open>bootc-<name>-<type>\<close>; the cluster's answer is \<open>bootc_job\<close>\<close>
  "buildBootcImage e ib export =
     (let jobName = ''bootc-'' @ Name (Metadata ib) @ ''-'' @ Export_Type export
      in case bootc_job e export of
           SetupFailed err \<Rightarrow> ([], Inl (errorf (''failed to create bootc job: '' @ err)))
         | JobFailed err logs \<Rightarrow>
             ([DeleteJob jobName], Inl (GoError (''bootc job failed: '' @ err) (Some logs)))
         | JobSucceeded \<Rightarrow>
             ([DeleteJob jobName], Inr (export_result ib export)))"

fun bootc_loop ::
  "env \<Rightarrow> ImageBuild \<Rightarrow> BootcExport list \<Rightarrow> BootcImageResult list \<Rightarrow>
     request list \<times> (gerror + BootcImageResult list)" where
  \<comment> \<open>the loop of \<^verbatim>\<open>BuildBootcImages\<close>: it returns at the first export that fails\<close>
  "bootc_loop e ib [] results = ([], Inr results)"
| "bootc_loop e ib (export # exports) results =
     (case buildBootcImage e ib export of
        (rq, Inl err) \<Rightarrow>
          (rq, Inl (wrap_error (''failed to build bootc image type='' @ Export_Type export) err))
      | (rq, Inr r) \<Rightarrow>
          (case bootc_loop e ib exports (results @ [r]) of (rq', out) \<Rightarrow> (rq @ rq', out)))"

definition BuildBootcImages ::
  "env \<Rightarrow> ImageBuild \<Rightarrow> request list \<times> (gerror + BootcImageResult list)" where
  "BuildBootcImages e ib =
     (case BootcExports (Spec ib) of
        None \<Rightarrow> ([], Inr [])
      | Some exports \<Rightarrow> if length exports = 0 then ([], Inr []) else bootc_loop e ib exports [])"

definition BuildAndPushImage :: "env \<Rightarrow> ImageBuild \<Rightarrow> request list \<times> (gerror + string)" where
  \<comment> \<open>the workload \<^verbatim>\<open>build-<name>\<close>; the cluster's answer is \<open>container_job\<close>\<close>
  "BuildAndPushImage e ib =
     (let imageName = generateImageName ib;
          jobName = ''build-'' @ Name (Metadata ib);
          configMapName = ''containerfile-'' @ Name (Metadata ib)
      in case container_job e of
           SetupFailed err \<Rightarrow> ([], Inl (errorf err))
         | JobFailed err logs \<Rightarrow>
             ([DeleteJob jobName, DeleteConfigMap configMapName],
              Inl (GoError (''build job failed: '' @ err) (Some logs)))
         | JobSucceeded \<Rightarrow>
             ([DeleteJob jobName, DeleteConfigMap configMapName], Inr imageName))"

fun store_loop ::
  "env \<Rightarrow> string \<Rightarrow> BootcImageResult list \<Rightarrow> BootcImageRef list \<Rightarrow>
     gerror + BootcImageRef list" where
  \<comment> \<open>step 5 of \<^verbatim>\<open>BuildImage\<close>: a result whose storing fails is skipped; only a panic stops\<close>
  "store_loop e name [] bootcRefs = Inr bootcRefs"
| "store_loop e name (r # rs) bootcRefs =
     (case StoreBootcImage (config e) (files e) name (Result_Path r) (Result_Type r) of
        Inl NilPointerPanic \<Rightarrow> Inl NilPointerPanic
      | Inl (GoError m l) \<Rightarrow> store_loop e name rs bootcRefs
      | Inr storageRef \<Rightarrow>
          store_loop e name rs
            (bootcRefs @ [\<lparr>Image_Type = Result_Type r,
                           Image_Architecture = Some (Result_Architecture r),
                           StorageRef = Ref_Path storageRef\<rparr>]))"

definition after_run :: "request list \<Rightarrow> run \<Rightarrow> run" where
  \<comment> \<open>a run that follows the requests already sent\<close>
  "after_run rq r = r\<lparr>requests := rq @ requests r\<rparr>"

definition bootc_stage :: "env \<Rightarrow> ImageBuild \<Rightarrow> string \<Rightarrow> run" where
  \<comment> \<open>steps 4 to 6 of \<^verbatim>\<open>BuildImage\<close>\<close>
  "bootc_stage e ib containerImageRef =
     (if (case BootcExports (Spec ib) of None \<Rightarrow> False | Some exports \<Rightarrow> 0 < length exports)
      then
        (if isCancelled e AtBootc ib then
           cancelBuild e ib ''Build cancelled before bootc image generation''
         else
           (let u = updateStatus e ib ''GeneratingImages'' ''Building bootc disk images'';
                ib1 = build u
            in case BuildBootcImages e ib1 of
                 (rq, Inl err) \<Rightarrow>
                   after_run (requests u @ rq)
                     (failBuild e ib1 (wrap_error ''failed to build bootc images'' err))
               | (rq, Inr bootcResults) \<Rightarrow>
                   (case store_loop e (Name (Metadata ib1)) bootcResults [] of
                      Inl panic \<Rightarrow>
                        \<lparr>build = ib1, requests = requests u @ rq, result = Some panic\<rparr>
                    | Inr bootcRefs \<Rightarrow>
                        after_run (requests u @ rq)
                          (completeBuild e ib1 containerImageRef bootcRefs))))
      else completeBuild e ib containerImageRef [])"

definition container_stage :: "env \<Rightarrow> ImageBuild \<Rightarrow> run" where
  \<comment> \<open>step 3 of \<^verbatim>\<open>BuildImage\<close> and what follows\<close>
  "container_stage e ib =
     (if isCancelled e AtContainerBuild ib then
        cancelBuild e ib ''Build cancelled before container image build''
      else
        (case BuildAndPushImage e ib of
           (rq, Inl err) \<Rightarrow>
             after_run rq (failBuild e ib (wrap_error ''failed to build container image'' err))
         | (rq, Inr containerImageRef) \<Rightarrow>
             (let u = updateStatusWithContainerImage e ib containerImageRef
              in after_run (rq @ requests u) (bootc_stage e (build u) containerImageRef))))"

definition containerfile_stage :: "env \<Rightarrow> ImageBuild \<Rightarrow> string \<Rightarrow> string \<Rightarrow> run" where
  \<comment> \<open>step 2 of \<^verbatim>\<open>BuildImage\<close> and what follows\<close>
  "containerfile_stage e ib enrollmentCert enrollmentKey =
     (if isCancelled e AtContainerfile ib then
        cancelBuild e ib ''Build cancelled before Containerfile generation''
      else
        (case generate_containerfile e (Spec ib) enrollmentCert enrollmentKey of
           Inl err \<Rightarrow> failBuild e ib (wrap_error ''failed to generate Containerfile'' err)
         | Inr containerfile \<Rightarrow> container_stage e ib))"

definition certificate_stage :: "env \<Rightarrow> ImageBuild \<Rightarrow> run" where
  \<comment> \<open>step 1 of \<^verbatim>\<open>BuildImage\<close> and what follows\<close>
  "certificate_stage e ib =
     (case FlightctlConfig (Spec ib) of
        None \<Rightarrow> containerfile_stage e ib [] []
      | Some c \<Rightarrow>
          if isCancelled e AtCertificate ib then
            cancelBuild e ib ''Build cancelled during certificate request''
          else
            (case request_certificate e (Name (Metadata ib)) of
               Inl err \<Rightarrow>
                 failBuild e ib (wrap_error ''failed to request enrollment certificate'' err)
             | Inr (cert, key) \<Rightarrow> containerfile_stage e ib cert key))"

definition BuildImage :: "env \<Rightarrow> ImageBuild \<Rightarrow> run" where
  "BuildImage e ib =
     (if isCancelled e AtStart ib then cancelBuild e ib ''Build cancelled before starting''
      else
        (let u = updateStatus e ib ''Building'' ''Starting image build process''
         in after_run (requests u) (certificate_stage e (build u))))"

definition reset_status :: "ImageBuild \<Rightarrow> ImageBuild" where
  \<comment> \<open>the status reset of \<^verbatim>\<open>RebuildImage\<close>\<close>
  "reset_status ib =
     (case Status ib of
        None \<Rightarrow> ib
      | Some st \<Rightarrow>
          ib\<lparr>Status := Some (st\<lparr>Phase := None, Message := None, ContainerImageRef := None,
                                  BootcImageRefs := None, CompletionTime := None\<rparr>)\<rparr>)"

definition RebuildImage :: "env \<Rightarrow> string \<Rightarrow> gerror + run" where
  \<comment> \<open>\<open>Inl\<close>: the resource was not found and no build was started\<close>
  "RebuildImage e imageBuildName =
     (case list_builds e of
        ListFailed err \<Rightarrow> Inl (errorf (''failed to list ImageBuilds: '' @ err))
      | ListResponse code body \<Rightarrow>
          if code \<noteq> 200 then
            Inl (errorf (''failed to list ImageBuilds, status code: '' @ decimal code))
          else
            (case find (\<lambda>item. Name (Metadata item) = imageBuildName)
                    (case body of None \<Rightarrow> [] | Some items \<Rightarrow> items) of
               None \<Rightarrow> Inl (errorf (''ImageBuild '' @ imageBuildName @ '' not found''))
             | Some imageBuild \<Rightarrow> Inr (BuildImage e (reset_status imageBuild))))"

section \<open>The catalog as the managers see it\<close>

text \<open>
  An organization holds its ImageBuilds; listing them can fail, and then the caller sees
  none of them. Times are in nanoseconds, as \<^verbatim>\<open>time.Duration\<close>; one tick reads the clock
  once.
\<close>

record Org =
  Org_Builds :: "ImageBuild list"
  List_Error :: "string option"

definition list_image_builds :: "Org \<Rightarrow> gerror + ImageBuild list" where
  \<comment> \<open>\<^verbatim>\<open>store.ImageBuild().List(ctx, org.ID, store.ListParams{})\<close>\<close>
  "list_image_builds org =
     (case List_Error org of Some err \<Rightarrow> Inl (errorf err) | None \<Rightarrow> Inr (Org_Builds org))"

definition minute :: int where
  "minute = 60 * 1000000000"


definition phase_of :: "ImageBuild \<Rightarrow> string option" where
  \<comment> \<open>\<open>None\<close> when \<^verbatim>\<open>Status == nil || Status.Phase == nil\<close>\<close>
  "phase_of ib = (case Status ib of None \<Rightarrow> None | Some st \<Rightarrow> Phase st)"

section \<open>The build manager\<close>

datatype action =
    GoProcessBuild ImageBuild
  | CallCancelBuild ImageBuild string

record BuildManager =
  recentlyCancelled :: "string \<rightharpoonup> int"

definition shouldProcessBuild :: "ImageBuild \<Rightarrow> bool" where
  "shouldProcessBuild ib =
     (case phase_of ib of None \<Rightarrow> True | Some p \<Rightarrow> p = [] \<or> p = ''Pending'')"

definition shouldCancelBuild :: "ImageBuild \<Rightarrow> bool" where
  "shouldCancelBuild ib =
     (case phase_of ib of
        None \<Rightarrow> False
      | Some p \<Rightarrow>
          if \<not> (p = ''Building'' \<or> p = ''Pushing'' \<or> p = ''GeneratingImages'') then False
          else annotation_is_true ib cancel_annotation)"

definition shouldRetryBuild :: "ImageBuild \<Rightarrow> bool" where
  "shouldRetryBuild ib =
     (case phase_of ib of
        None \<Rightarrow> False
      | Some p \<Rightarrow> if p \<noteq> ''Failed'' then False else annotation_is_true ib retry_annotation)"

definition handleCancellation ::
  "BuildManager \<Rightarrow> int \<Rightarrow> ImageBuild \<Rightarrow> BuildManager \<times> action list" where
  "handleCancellation bm now ib =
     (let buildName = Name (Metadata ib);
          cancel = (bm\<lparr>recentlyCancelled := (recentlyCancelled bm)(buildName \<mapsto> now)\<rparr>,
                    [CallCancelBuild ib ''Build cancelled by user request''])
      in case recentlyCancelled bm buildName of
           None \<Rightarrow> cancel
         | Some lastCancelled \<Rightarrow> if now - lastCancelled < 2 * minute then (bm, []) else cancel)"

definition cleanupRecentlyCancelled :: "BuildManager \<Rightarrow> int \<Rightarrow> BuildManager" where
  "cleanupRecentlyCancelled bm now =
     bm\<lparr>recentlyCancelled :=
          (\<lambda>buildName. case recentlyCancelled bm buildName of
                          None \<Rightarrow> None
                        | Some cancelTime \<Rightarrow>
                            if now - cancelTime > 2 * minute then None else Some cancelTime)\<rparr>"

definition without_retry :: "ImageBuild \<Rightarrow> ImageBuild" where
  \<comment> \<open>\<^verbatim>\<open>delete(*imageBuild.Metadata.Annotations, "imagebuilder.flightctl.io/retry")\<close>
      on the listed copy of the resource\<close>
  "without_retry ib =
     ib\<lparr>Metadata := (Metadata ib)
          \<lparr>Annotations :=
             map_option (\<lambda>m. m(retry_annotation := None)) (Annotations (Metadata ib))\<rparr>\<rparr>"

definition handleRetry :: "ImageBuild \<Rightarrow> action list" where
  "handleRetry ib = [GoProcessBuild (without_retry ib)]"

definition process_build ::
  "BuildManager \<Rightarrow> int \<Rightarrow> ImageBuild \<Rightarrow> BuildManager \<times> action list" where
  \<comment> \<open>the body of the loop of \<^verbatim>\<open>processPendingBuildsForOrg\<close>\<close>
  "process_build bm now ib =
     (let started = (if shouldProcessBuild ib then [GoProcessBuild ib] else []);
          (bm', cancelled) =
            (if shouldCancelBuild ib then handleCancellation bm now ib else (bm, []));
          retried = (if shouldRetryBuild ib then handleRetry ib else [])
      in (bm', started @ cancelled @ retried))"

fun process_builds ::
  "BuildManager \<Rightarrow> int \<Rightarrow> ImageBuild list \<Rightarrow> BuildManager \<times> action list" where
  "process_builds bm now [] = (bm, [])"
| "process_builds bm now (ib # rest) =
     (case process_build bm now ib of
        (bm', acts) \<Rightarrow>
          (case process_builds bm' now rest of (bm'', acts') \<Rightarrow> (bm'', acts @ acts')))"

definition processPendingBuildsForOrg ::
  "BuildManager \<Rightarrow> int \<Rightarrow> Org \<Rightarrow> BuildManager \<times> action list" where
  "processPendingBuildsForOrg bm now org =
     (case list_image_builds org of
        Inl err \<Rightarrow> (bm, [])
      | Inr items \<Rightarrow> process_builds bm now items)"

fun process_orgs :: "BuildManager \<Rightarrow> int \<Rightarrow> Org list \<Rightarrow> BuildManager \<times> action list" where
  "process_orgs bm now [] = (bm, [])"
| "process_orgs bm now (org # orgs) =
     (case processPendingBuildsForOrg bm now org of
        (bm', acts) \<Rightarrow>
          (case process_orgs bm' now orgs of (bm'', acts') \<Rightarrow> (bm'', acts @ acts')))"

definition ProcessPendingBuilds ::
  "BuildManager \<Rightarrow> int \<Rightarrow> gerror + Org list \<Rightarrow> BuildManager \<times> action list" where
  \<comment> \<open>one tick; the catalog's answer to \<^verbatim>\<open>Organization().List\<close> is the third argument\<close>
  "ProcessPendingBuilds bm now catalog =
     (let bm' = cleanupRecentlyCancelled bm now
      in case catalog of
           Inl err \<Rightarrow> (bm', [])
         | Inr orgs \<Rightarrow> process_orgs bm' now orgs)"

definition NewBuildManager :: BuildManager where
  "NewBuildManager = \<lparr>recentlyCancelled = Map.empty\<rparr>"

fun dispatched :: "action list \<Rightarrow> string list" where
  \<comment> \<open>the names of the builds for which an Orchestrator task was started\<close>
  "dispatched [] = []"
| "dispatched (GoProcessBuild ib # acts) = Name (Metadata ib) # dispatched acts"
| "dispatched (CallCancelBuild ib reason # acts) = dispatched acts"

definition listed :: "Org list \<Rightarrow> ImageBuild list" where
  \<comment> \<open>the builds a tick sees: those of the organizations whose listing succeeds\<close>
  "listed orgs =
     concat (map (\<lambda>org. case list_image_builds org of Inl err \<Rightarrow> [] | Inr items \<Rightarrow> items) orgs)"

fun touches_retry :: "request \<Rightarrow> bool" where
  \<comment> \<open>a patch of the catalog resource that removes the retry annotation\<close>
  "touches_retry (PatchBuild name ops) =
     (Remove ''/metadata/annotations/imagebuilder.flightctl.io~1retry'' \<in> set ops)"
| "touches_retry (ReplaceStatus name ib) = False"
| "touches_retry (DeleteJob name) = False"
| "touches_retry (DeleteConfigMap name) = False"

section \<open>The cleanup manager\<close>












section \<open>The upload endpoint\<close>




datatype json = JBool bool | JString string | JNumber int

datatype body = Text string | Json "(string \<times> json) list"

datatype storage_effect =
    MkdirAll string
  | CreateFile string
  | RemoveFile string
  | PutObject string string

record http_response =
  Status_Code :: nat
  Body :: body
  Effects :: "storage_effect list"

definition http_Error :: "string \<Rightarrow> nat \<Rightarrow> http_response" where
  \<comment> \<open>\<^verbatim>\<open>http.Error(w, message, code)\<close>: the message and a newline\<close>
  "http_Error message code =
     \<lparr>Status_Code = code, Body = Text (message @ [CHR 0x0A]), Effects = []\<rparr>"
























section \<open>Runs of the orchestrator\<close>

definition terminal_phase :: "string \<Rightarrow> bool" where
  "terminal_phase p = (p = ''Completed'' \<or> p = ''Failed'' \<or> p = ''Cancelled'')"

definition ends_stamped :: "env \<Rightarrow> run \<Rightarrow> bool" where
  \<comment> \<open>the run ended in a terminal phase whose time of writing is the completion time,
      or it ended in a panic\<close>
  "ends_stamped e r =
     (result r = Some NilPointerPanic \<or>
      (case Phase (status_of (build r)) of
         None \<Rightarrow> False
       | Some p \<Rightarrow> terminal_phase p \<and>
           CompletionTime (status_of (build r)) = Some (now_at e p)))"

definition enrollment :: "env \<Rightarrow> ImageBuild \<Rightarrow> gerror + (string \<times> string)" where
  \<comment> \<open>the certificate and key of step 1: empty without an agent configuration\<close>
  "enrollment e ib =
     (case FlightctlConfig (Spec ib) of
        None \<Rightarrow> Inr ([], [])
      | Some c \<Rightarrow> request_certificate e (Name (Metadata ib)))"

definition reaches_bootc :: "env \<Rightarrow> ImageBuild \<Rightarrow> bool" where
  \<comment> \<open>no cancellation is observed and steps 1 to 3 succeed\<close>
  "reaches_bootc e ib =
     (\<not> isCancelled e AtStart ib \<and> \<not> isCancelled e AtCertificate ib \<and>
      \<not> isCancelled e AtContainerfile ib \<and> \<not> isCancelled e AtContainerBuild ib \<and>
      \<not> isCancelled e AtBootc ib \<and>
      (case enrollment e ib of
         Inl err \<Rightarrow> False
       | Inr (cert, key) \<Rightarrow>
           (case generate_containerfile e (Spec ib) cert key of
              Inl err \<Rightarrow> False
            | Inr containerfile \<Rightarrow> True)) \<and>
      container_job e = JobSucceeded)"

definition pushed :: "env \<Rightarrow> ImageBuild \<Rightarrow> ImageBuild" where
  \<comment> \<open>the resource in memory after step 3: phases \<^verbatim>\<open>Building\<close> and \<^verbatim>\<open>Pushing\<close> written\<close>
  "pushed e ib =
     build (updateStatusWithContainerImage e
              (build (updateStatus e ib ''Building'' ''Starting image build process''))
              (generateImageName ib))"

definition requested_exports :: "ImageBuild \<Rightarrow> BootcExport list" where
  "requested_exports ib = (case BootcExports (Spec ib) of None \<Rightarrow> [] | Some xs \<Rightarrow> xs)"

definition all_exports_succeed :: "env \<Rightarrow> ImageBuild \<Rightarrow> bool" where
  "all_exports_succeed e ib =
     list_all (\<lambda>x. bootc_job e x = JobSucceeded) (requested_exports ib)"

definition no_store_panic :: "env \<Rightarrow> bool" where
  \<comment> \<open>an object-store backend comes with its configuration\<close>
  "no_store_panic e =
     (case storage_of (config e) of
        None \<Rightarrow> True
      | Some storage \<Rightarrow> Storage_Type storage = ''s3'' \<longrightarrow> S3 storage \<noteq> None)"

definition resolve_export :: "env \<Rightarrow> ImageBuild \<Rightarrow> BootcExport \<Rightarrow> gerror + StorageReference" where
  \<comment> \<open>the storage step for the artifact of one export\<close>
  "resolve_export e ib x =
     StoreBootcImage (config e) (files e) (Name (Metadata ib))
       (uploaded_sentinel (Name (Metadata ib)) (Export_Type x)) (Export_Type x)"

definition stored_refs :: "env \<Rightarrow> ImageBuild \<Rightarrow> BootcImageRef list" where
  \<comment> \<open>the references of the requested exports whose storage step succeeds, in order\<close>
  "stored_refs e ib =
     List.map_filter
       (\<lambda>x. case resolve_export e ib x of
               Inl err \<Rightarrow> None
             | Inr storageRef \<Rightarrow>
                 Some \<lparr>Image_Type = Export_Type x,
                       Image_Architecture = Some (getArchitecture (Export_Architecture x)),
                       StorageRef = Ref_Path storageRef\<rparr>)
       (requested_exports ib)"

section \<open>Example inputs\<close>

definition example_pvc_storage :: StorageConfig where
  "example_pvc_storage =
     \<lparr>Storage_Type = ''pvc'', LocalPath = [], PVCName = ''imagebuilder-storage'', S3 = None\<rparr>"

definition example_config :: Config where
  "example_config =
     \<lparr>ImageBuilder = Some \<lparr>BuildNamespace = ''flightctl-builds'',
                          Storage = Some example_pvc_storage\<rparr>,
      Service = None\<rparr>"

definition example_sys :: sys where
  \<comment> \<open>a file system where every call succeeds and no file is found\<close>
  "example_sys =
     \<lparr>stat_size = (\<lambda>_. None), mkdir_all = (\<lambda>_. None), copy_file = (\<lambda>_ _. Inr 0),
      create_file = (\<lambda>_. None), stream_copy = (\<lambda>_. Inr 0), s3_session = None,
      s3_open = (\<lambda>_. Inr 0), s3_put = (\<lambda>_ _. None)\<rparr>"

definition example_env :: env where
  \<comment> \<open>every call succeeds, except the workload of an \<^verbatim>\<open>iso\<close> export\<close>
  "example_env =
     \<lparr>config = example_config, files = example_sys,
      get_build = (\<lambda>at. GetResponse 404 None),
      list_builds = ListResponse 200 None,
      replace_status = (\<lambda>ib. Response 200),
      now_at = (\<lambda>phase. 1000),
      request_certificate = (\<lambda>name. Inr ([], [])),
      generate_containerfile = (\<lambda>spec cert key. Inr ''FROM scratch''),
      container_job = JobSucceeded,
      bootc_job = (\<lambda>x. if Export_Type x = ''iso'' then JobFailed ''exit status 1'' [''error'']
                        else JobSucceeded),
      list_pods = (\<lambda>selector. Inr []),
      get_pod_logs = (\<lambda>pod. Inr []),
      list_jobs = (\<lambda>selector. Inr [])\<rparr>"


definition build_with_exports :: "string \<Rightarrow> string list \<Rightarrow> ImageBuildStatus option \<Rightarrow> ImageBuild" where
  \<comment> \<open>a build with the given name, export types and status\<close>
  "build_with_exports name types st =
     \<lparr>Metadata = \<lparr>Name = name, Annotations = None, CreationTimestamp = Some jan4\<rparr>,
      Spec = \<lparr>ContainerRegistry = None,
              BootcExports =
                Some (map (\<lambda>t. \<lparr>Export_Type = t, Export_Architecture = None\<rparr>) types),
              FlightctlConfig = None\<rparr>,
      Status = st\<rparr>"

definition failed_status :: ImageBuildStatus where
  \<comment> \<open>the status of a build that started at 100 and failed at 200\<close>
  "failed_status =
     \<lparr>Phase = Some ''Failed'', Message = Some ''Build failed: build job failed'',
      ContainerImageRef = None, BootcImageRefs = None, StartTime = Some 100,
      CompletionTime = Some 200, Logs = Some [''error'']\<rparr>"

definition cancel_requested_build :: ImageBuild where
  \<comment> \<open>a build whose cancellation was requested\<close>
  "cancel_requested_build =
     (build_with_exports ''b3'' [] None)
       \<lparr>Metadata := \<lparr>Name = ''b3'',
                      Annotations = Some [cancel_annotation \<mapsto> ''true''],
                      CreationTimestamp = Some jan4\<rparr>\<rparr>"

definition rebuild_env :: env where
  \<comment> \<open>as \<open>example_env\<close>, with the failed build \<^verbatim>\<open>b4\<close> in the catalog\<close>
  "rebuild_env =
     example_env\<lparr>list_builds :=
       ListResponse 200 (Some [build_with_exports ''b4'' [] (Some failed_status)])\<rparr>"

definition second :: int where
  "second = 1000000000"

definition build_in_phase :: "string \<Rightarrow> string \<Rightarrow> (string \<rightharpoonup> string) option \<Rightarrow> ImageBuild" where
  \<comment> \<open>a build with the given name, phase and annotations\<close>
  "build_in_phase name phase ann =
     \<lparr>Metadata = \<lparr>Name = name, Annotations = ann, CreationTimestamp = Some jan4\<rparr>,
      Spec = \<lparr>ContainerRegistry = None, BootcExports = None, FlightctlConfig = None\<rparr>,
      Status = Some (empty_status\<lparr>Phase := Some phase\<rparr>)\<rparr>"

definition pending_catalog :: "gerror + Org list" where
  \<comment> \<open>one organization with the build \<^verbatim>\<open>b\<close> in phase Pending\<close>
  "pending_catalog =
     Inr [\<lparr>Org_Builds = [build_in_phase ''b'' ''Pending'' None], List_Error = None\<rparr>]"

definition retry_requested_build :: ImageBuild where
  \<comment> \<open>the failed build \<^verbatim>\<open>b4\<close> with the retry annotation\<close>
  "retry_requested_build =
     build_in_phase ''b4'' ''Failed'' (Some [retry_annotation \<mapsto> ''true''])"










section \<open>Properties\<close>

lemma getImageExtensionFromString_closed:
  "getImageExtensionFromString t = spec_extension t"
  by (simp add: getImageExtensionFromString_def spec_extension_def)

subsection \<open>Image references\<close>

lemmas image_name_defs =
  generateImageName_def spec_image_ref_def build_with_registry_def tag_after_last_slash_def
  image_tag_def TrimPrefix_def TrimSuffix_def HasPrefix_def HasSuffix_def Contains_def Let_def

lemma format_jan4: "format_timestamp jan4 = ''20250104-143022''"
  by code_simp

lemma image_ref_examples:
  "generateImageName (build_with_registry ''b'' ''https://quay.io/org/img:v1/'' (Some jan4))
     = ''quay.io/org/img:v1''"
  "generateImageName (build_with_registry ''b'' ''localhost:5000'' (Some jan4))
     = ''localhost:5000/b:20250104-143022''"
  "generateImageName (build_with_registry ''b1'' [] (Some jan4)) = ''b1:20250104-143022''"
  by (simp_all add: image_name_defs format_jan4)

text \<open>
  C3. The image reference of a build whose registry URL has a path is the URL as it is
  exactly when a tag follows the last slash. The code decides with the first colon of the
  URL, so a URL with a registry port and a tag, \<^verbatim>\<open>localhost:5000/myimage:v1\<close> (the example
  of the code's own comment, and the input of its test), is given a second tag, although
  a tag follows its last slash.
\<close>

theorem generateImageName_port_and_tag:
  "tag_after_last_slash ''localhost:5000/myimage:v1'' \<and>
   spec_image_ref (build_with_registry ''test-build'' ''localhost:5000/myimage:v1'' None)
     = ''localhost:5000/myimage:v1'' \<and>
   generateImageName (build_with_registry ''test-build'' ''localhost:5000/myimage:v1'' None)
     = ''localhost:5000/myimage:v1:latest'' \<and>
   generateImageName (build_with_registry ''test-build'' ''localhost:5000/myimage:v1'' (Some jan4))
     = ''localhost:5000/myimage:v1:20250104-143022''"
  by (simp add: image_name_defs format_jan4)

subsection \<open>Paths\<close>

lemma split_on_ne: "split_on c s \<noteq> []"
  by (induction s) (auto split: list.splits)

lemma split_on_append: "split_on c (a @ c # b) = split_on c a @ split_on c b"
proof (induction a)
  case Nil
  show ?case by simp
next
  case (Cons d a)
  obtain x xs where sa: "split_on c a = x # xs"
    using split_on_ne [of c a] by (cases "split_on c a") auto
  show ?case using Cons sa by simp
qed

lemma split_on_simple: "c \<notin> set s \<Longrightarrow> split_on c s = [s]"
  by (induction s) auto

lemma split_sep_append: "split_sep (a @ ''/'' @ b) = split_sep a @ split_sep b"
  using split_on_append [of "CHR ''/''" a b] by (simp add: split_sep_def)

lemma split_sep_simple: "CHR ''/'' \<notin> set s \<Longrightarrow> split_sep s = [s]"
  by (simp add: split_sep_def split_on_simple)

lemma clean_step_simple: "simple_segment e \<Longrightarrow> clean_step r st e = e # st"
  by (simp add: clean_step_def simple_segment_def)

lemma clean_elems_snoc:
  "simple_segment e \<Longrightarrow> clean_elems r (xs @ [e]) = clean_elems r xs @ [e]"
  by (simp add: clean_elems_def clean_step_simple)

lemma join_sep_snoc: "ys \<noteq> [] \<Longrightarrow> join_sep (ys @ [x]) = join_sep ys @ ''/'' @ x"
  by (induction ys rule: join_sep.induct) auto

lemma join_sep_snoc2:
  "ys \<noteq> [] \<Longrightarrow> join_sep (ys @ [x, y]) = join_sep ys @ ''/'' @ x @ ''/'' @ y"
  by (induction ys rule: join_sep.induct) auto

lemma Clean_rooted_two:
  assumes b: "b \<noteq> []" "hd b = CHR ''/''" and n: "simple_segment n" and f: "simple_segment f"
    and cb: "Clean b = b" "b \<noteq> ''/''"
  shows "Clean (b @ ''/'' @ n @ ''/'' @ f) = b @ ''/'' @ n @ ''/'' @ f"
proof -
  let ?es = "clean_elems True (split_sep b)"
  have cb': "b = ''/'' @ join_sep ?es"
    using cb(1) b by (simp add: Clean_def Let_def)
  have ne: "?es \<noteq> []"
  proof
    assume "?es = []"
    with cb' have "b = ''/''" by simp
    with cb(2) show False by simp
  qed
  have sp: "split_sep (b @ ''/'' @ n @ ''/'' @ f) = split_sep b @ [n] @ [f]"
    using n f split_sep_append [of b "n @ ''/'' @ f"] split_sep_append [of n f]
    by (simp add: split_sep_simple simple_segment_def)
  have ce: "clean_elems True (split_sep (b @ ''/'' @ n @ ''/'' @ f)) = (?es @ [n]) @ [f]"
    using clean_elems_snoc [OF f, of True "split_sep b @ [n]"]
      clean_elems_snoc [OF n, of True "split_sep b"] sp by simp
  have "join_sep ((?es @ [n]) @ [f]) = join_sep ?es @ ''/'' @ n @ ''/'' @ f"
    using ne by (simp add: join_sep_snoc2)
  then have "Clean (b @ ''/'' @ n @ ''/'' @ f) = (''/'' @ join_sep ?es) @ ''/'' @ n @ ''/'' @ f"
    using b ce by (simp add: Clean_def Let_def hd_append)
  then show ?thesis using cb' by simp
qed

lemma Join3:
  "b \<noteq> [] \<Longrightarrow> Join [b, n, f] = Clean (b @ ''/'' @ n @ ''/'' @ f)"
  by (simp add: Join_def)

lemma simple_artifact_file:
  assumes "simple_segment t"
  shows "simple_segment (artifact_file t)"
proof -
  have len: "3 \<le> length (artifact_file t)"
    using assms
    by (cases t) (auto simp: simple_segment_def artifact_file_def
        getImageExtensionFromString_closed spec_extension_def)
  have "artifact_file t \<noteq> ''.''" "artifact_file t \<noteq> ''..''" "artifact_file t \<noteq> []"
    using len by auto
  moreover have "CHR ''/'' \<notin> set (artifact_file t)"
    using assms
    by (auto simp: simple_segment_def artifact_file_def
        getImageExtensionFromString_closed spec_extension_def)
  ultimately show ?thesis by (simp add: simple_segment_def)
qed

lemma HasPrefix_sentinel: "HasPrefix (uploaded_sentinel name t) ''uploaded:''"
  by (simp add: HasPrefix_def uploaded_sentinel_def)

subsection \<open>Stored artifacts\<close>

text \<open>
  C8. The extension of an export type is \<^verbatim>\<open>iso\<close>, \<^verbatim>\<open>qcow2\<close>, \<^verbatim>\<open>vmdk\<close>, \<^verbatim>\<open>raw\<close>,
  \<^verbatim>\<open>raw\<close> for \<^verbatim>\<open>ami\<close>, and \<^verbatim>\<open>tar\<close>; any other type is its own extension. With a
  supported storage backend whose base directory is a clean absolute path, a build name and
  an export type that are plain path elements, the storage layer resolves the sentinel
  \<^verbatim>\<open>uploaded:<name>/<type>\<close> to \<^verbatim>\<open><base>/<name>/<type>.<ext>\<close>, whatever the file system
  answers; an \<^verbatim>\<open>ami\<close> export resolves to a path ending in \<^verbatim>\<open><name>/ami.raw\<close>.
\<close>

theorem sentinel_resolves_to_artifact_path:
  assumes cfg: "storage_of cfg = Some storage"
    and sup: "supported_storage storage"
    and base: "clean_rooted_base storage"
    and name: "simple_segment name"
    and t: "simple_segment t"
  shows "getImageExtensionFromString ''iso'' = ''iso'' \<and>
         getImageExtensionFromString ''qcow2'' = ''qcow2'' \<and>
         getImageExtensionFromString ''vmdk'' = ''vmdk'' \<and>
         getImageExtensionFromString ''raw'' = ''raw'' \<and>
         getImageExtensionFromString ''ami'' = ''raw'' \<and>
         getImageExtensionFromString ''tar'' = ''tar'' \<and>
         (\<forall>u. u \<notin> {''iso'', ''qcow2'', ''vmdk'', ''raw'', ''ami'', ''tar''} \<longrightarrow>
              getImageExtensionFromString u = u) \<and>
         (\<exists>ref. StoreBootcImage cfg io name (uploaded_sentinel name t) t = Inr ref \<and>
            Ref_Path ref = spec_artifact_path (spec_storage_base storage) name t \<and>
            (t = ''ami'' \<longrightarrow> suffix (name @ ''/ami.raw'') (Ref_Path ref)))"
proof -
  have ext: "getImageExtensionFromString ''iso'' = ''iso''"
    "getImageExtensionFromString ''qcow2'' = ''qcow2''"
    "getImageExtensionFromString ''vmdk'' = ''vmdk''"
    "getImageExtensionFromString ''raw'' = ''raw''"
    "getImageExtensionFromString ''ami'' = ''raw''"
    "getImageExtensionFromString ''tar'' = ''tar''"
    by (simp_all add: getImageExtensionFromString_def)
  have unk: "\<forall>u. u \<notin> {''iso'', ''qcow2'', ''vmdk'', ''raw'', ''ami'', ''tar''} \<longrightarrow>
              getImageExtensionFromString u = u"
    by (simp add: getImageExtensionFromString_closed spec_extension_def)
  have fl: "simple_segment (artifact_file t)"
    using t by (rule simple_artifact_file)
  have af: "artifact_file t = t @ ''.'' @ spec_extension t"
    by (simp add: artifact_file_def getImageExtensionFromString_closed)
  have sfx: "t = ''ami'' \<longrightarrow>
      suffix (name @ ''/ami.raw'') (spec_artifact_path (spec_storage_base storage) name t)"
    by (auto simp: spec_artifact_path_def spec_extension_def suffix_def)
  have joined: "Storage_Type storage \<noteq> ''s3'' \<Longrightarrow>
      Join [spec_storage_base storage, name, artifact_file t]
        = spec_artifact_path (spec_storage_base storage) name t"
  proof -
    assume ns: "Storage_Type storage \<noteq> ''s3''"
    let ?b = "spec_storage_base storage"
    from base ns have b: "?b \<noteq> []" "hd ?b = CHR ''/''" "?b \<noteq> ''/''" "Clean ?b = ?b"
      by (simp_all add: clean_rooted_base_def Let_def)
    show ?thesis
      using Clean_rooted_two [OF b(1) b(2) name fl b(4) b(3)] b(1)
      by (simp add: Join3 spec_artifact_path_def af)
  qed
  have res: "\<exists>ref. StoreBootcImage cfg io name (uploaded_sentinel name t) t = Inr ref \<and>
            Ref_Path ref = spec_artifact_path (spec_storage_base storage) name t"
  proof -
    consider (local) "Storage_Type storage = ''local''"
      | (pvc) "Storage_Type storage = ''pvc''"
      | (s3) "Storage_Type storage = ''s3''" "S3 storage \<noteq> None"
      using sup by (auto simp: supported_storage_def)
    then show ?thesis
    proof cases
      case local
      then have "Storage_Type storage \<noteq> ''s3''" by simp
      from joined [OF this] local cfg show ?thesis
        by (simp add: StoreBootcImage_def HasPrefix_sentinel spec_storage_base_def Let_def)
    next
      case pvc
      then have "Storage_Type storage \<noteq> ''s3''" by simp
      from joined [OF this] pvc cfg show ?thesis
        by (simp add: StoreBootcImage_def HasPrefix_sentinel spec_storage_base_def Let_def)
    next
      case s3
      then obtain c where c: "S3 storage = Some c" by auto
      with s3 cfg show ?thesis
        by (simp add: StoreBootcImage_def HasPrefix_sentinel spec_storage_base_def Let_def
            spec_artifact_path_def af)
    qed
  qed
  from res sfx have "\<exists>ref. StoreBootcImage cfg io name (uploaded_sentinel name t) t = Inr ref \<and>
            Ref_Path ref = spec_artifact_path (spec_storage_base storage) name t \<and>
            (t = ''ami'' \<longrightarrow> suffix (name @ ''/ami.raw'') (Ref_Path ref))"
    by auto
  with ext unk show ?thesis by simp
qed

lemma example_pvc_base_clean: "clean_rooted_base example_pvc_storage"
  by (simp add: clean_rooted_base_def example_pvc_storage_def spec_storage_base_def
      Clean_def clean_elems_def clean_step_def split_sep_def Let_def)

text \<open>The theorem at the build \<^verbatim>\<open>b2\<close> with an \<^verbatim>\<open>ami\<close> export on a volume.\<close>

theorem sentinel_resolves_to_artifact_path_witness:
  "storage_of example_config = Some example_pvc_storage \<and>
   supported_storage example_pvc_storage \<and>
   clean_rooted_base example_pvc_storage \<and>
   simple_segment ''b2'' \<and> simple_segment ''ami'' \<and>
   (\<exists>ref. StoreBootcImage example_config example_sys ''b2'' (uploaded_sentinel ''b2'' ''ami'') ''ami''
            = Inr ref \<and>
      Ref_Path ref = ''/mnt/pvc/imagebuilder-storage/b2/ami.raw'' \<and>
      suffix ''b2/ami.raw'' (Ref_Path ref))"
proof -
  have h1: "storage_of example_config = Some example_pvc_storage"
    by (simp add: storage_of_def example_config_def)
  have h2: "supported_storage example_pvc_storage"
    by (simp add: supported_storage_def example_pvc_storage_def)
  have h4: "simple_segment ''b2''" and h5: "simple_segment ''ami''"
    by (simp_all add: simple_segment_def)
  have p: "spec_artifact_path (spec_storage_base example_pvc_storage) ''b2'' ''ami''
      = ''/mnt/pvc/imagebuilder-storage/b2/ami.raw''"
    by (simp add: spec_artifact_path_def spec_storage_base_def example_pvc_storage_def
        spec_extension_def)
  show ?thesis
    using sentinel_resolves_to_artifact_path [OF h1 h2 example_pvc_base_clean h4 h5, of example_sys]
      h1 h2 example_pvc_base_clean h4 h5 p
    by auto
qed

subsection \<open>Status writes and stages of a build\<close>

lemma after_run_fields [simp]:
  "build (after_run rq r) = build r" "result (after_run rq r) = result r"
  "requests (after_run rq r) = rq @ requests r"
  by (simp_all add: after_run_def)

lemma status_of_Status [simp]: "status_of (ib\<lparr>Status := Some st\<rparr>) = st"
  by (simp add: status_of_def)

lemma empty_status_fields [simp]:
  "StartTime empty_status = None" "CompletionTime empty_status = None"
  "BootcImageRefs empty_status = None" "Logs empty_status = None" "Phase empty_status = None"
  by (simp_all add: empty_status_def)

lemma isCancelled_Metadata:
  "Metadata ib' = Metadata ib \<Longrightarrow> isCancelled e at ib' = isCancelled e at ib"
proof -
  assume "Metadata ib' = Metadata ib"
  then have "annotation_is_true ib' cancel_annotation = annotation_is_true ib cancel_annotation"
    by (simp add: annotation_is_true_def)
  then show ?thesis
    by (simp add: isCancelled_def split: get_response.splits option.splits)
qed

lemma updateStatus_fields [simp]:
  "Metadata (build (updateStatus e ib p m)) = Metadata ib"
  "Spec (build (updateStatus e ib p m)) = Spec ib"
  "Phase (status_of (build (updateStatus e ib p m))) = Some p"
  "StartTime (status_of (build (updateStatus e ib p m))) =
     (if p = ''Building'' \<and> StartTime (status_of ib) = None then Some (now_at e p)
      else StartTime (status_of ib))"
  "CompletionTime (status_of (build (updateStatus e ib p m))) = CompletionTime (status_of ib)"
  "BootcImageRefs (status_of (build (updateStatus e ib p m))) = BootcImageRefs (status_of ib)"
  "Logs (status_of (build (updateStatus e ib p m))) = Logs (status_of ib)"
  by (simp_all add: updateStatus_def Let_def)

lemma updateStatusWithContainerImage_fields [simp]:
  "Metadata (build (updateStatusWithContainerImage e ib c)) = Metadata ib"
  "Spec (build (updateStatusWithContainerImage e ib c)) = Spec ib"
  "Phase (status_of (build (updateStatusWithContainerImage e ib c))) = Some ''Pushing''"
  "StartTime (status_of (build (updateStatusWithContainerImage e ib c))) = StartTime (status_of ib)"
  "CompletionTime (status_of (build (updateStatusWithContainerImage e ib c)))
     = CompletionTime (status_of ib)"
  "BootcImageRefs (status_of (build (updateStatusWithContainerImage e ib c)))
     = BootcImageRefs (status_of ib)"
  "Logs (status_of (build (updateStatusWithContainerImage e ib c))) = Logs (status_of ib)"
  by (simp_all add: updateStatusWithContainerImage_def Let_def)

lemma isCancelled_updates [simp]:
  "isCancelled e at (build (updateStatus e ib p m)) = isCancelled e at ib"
  "isCancelled e at (build (updateStatusWithContainerImage e ib c)) = isCancelled e at ib"
  by (rule isCancelled_Metadata, simp)+

lemma completeBuild_fields [simp]:
  "Metadata (build (completeBuild e ib c refs)) = Metadata ib"
  "Phase (status_of (build (completeBuild e ib c refs))) = Some ''Completed''"
  "StartTime (status_of (build (completeBuild e ib c refs))) = StartTime (status_of ib)"
  "CompletionTime (status_of (build (completeBuild e ib c refs))) = Some (now_at e ''Completed'')"
  "BootcImageRefs (status_of (build (completeBuild e ib c refs))) =
     (if refs = [] then BootcImageRefs (status_of ib) else Some refs)"
  "ContainerImageRef (status_of (build (completeBuild e ib c refs))) = Some c"
  "Logs (status_of (build (completeBuild e ib c refs))) = Logs (status_of ib)"
  by (simp_all add: completeBuild_def Let_def)

lemma failBuild_fields [simp]:
  "Metadata (build (failBuild e ib err)) = Metadata ib"
  "Phase (status_of (build (failBuild e ib err))) = Some ''Failed''"
  "StartTime (status_of (build (failBuild e ib err))) = StartTime (status_of ib)"
  "CompletionTime (status_of (build (failBuild e ib err))) = Some (now_at e ''Failed'')"
  "BootcImageRefs (status_of (build (failBuild e ib err))) = BootcImageRefs (status_of ib)"
  "result (failBuild e ib err) = Some err"
  by (simp_all add: failBuild_def Let_def split: option.splits)

lemma CancelBuild_fields [simp]:
  "Metadata (build (CancelBuild e ib reason)) = Metadata ib"
  "Phase (status_of (build (CancelBuild e ib reason))) = Some ''Cancelled''"
  "StartTime (status_of (build (CancelBuild e ib reason))) = StartTime (status_of ib)"
  "CompletionTime (status_of (build (CancelBuild e ib reason))) = Some (now_at e ''Cancelled'')"
  "BootcImageRefs (status_of (build (CancelBuild e ib reason))) = BootcImageRefs (status_of ib)"
  "result (CancelBuild e ib reason) \<noteq> None"
  by (simp_all add: CancelBuild_def Let_def split: option.splits)

lemma reset_status_fields [simp]:
  "Metadata (reset_status ib) = Metadata ib"
  "Phase (status_of (reset_status ib)) = None"
  "Message (status_of (reset_status ib)) = None"
  "ContainerImageRef (status_of (reset_status ib)) = None"
  "BootcImageRefs (status_of (reset_status ib)) = None"
  "CompletionTime (status_of (reset_status ib)) = None"
  "StartTime (status_of (reset_status ib)) = StartTime (status_of ib)"
  "Logs (status_of (reset_status ib)) = Logs (status_of ib)"
  by (simp_all add: reset_status_def status_of_def empty_status_def split: option.splits)

lemma bootc_stage_StartTime:
  "StartTime (status_of (build (bootc_stage e ib c))) = StartTime (status_of ib)"
  by (simp add: bootc_stage_def cancelBuild_def Let_def split: prod.splits sum.splits option.splits)

lemma container_stage_StartTime:
  "StartTime (status_of (build (container_stage e ib))) = StartTime (status_of ib)"
  by (simp add: container_stage_def cancelBuild_def bootc_stage_StartTime Let_def
      split: prod.splits sum.splits)

lemma containerfile_stage_StartTime:
  "StartTime (status_of (build (containerfile_stage e ib c k))) = StartTime (status_of ib)"
  by (simp add: containerfile_stage_def cancelBuild_def container_stage_StartTime
      split: sum.splits)

lemma certificate_stage_StartTime:
  "StartTime (status_of (build (certificate_stage e ib))) = StartTime (status_of ib)"
  by (simp add: certificate_stage_def cancelBuild_def containerfile_stage_StartTime
      split: sum.splits option.splits prod.splits)

lemma BuildImage_StartTime:
  "StartTime (status_of (build (BuildImage e ib))) =
     (if isCancelled e AtStart ib then StartTime (status_of ib)
      else case StartTime (status_of ib) of None \<Rightarrow> Some (now_at e ''Building'') | Some t \<Rightarrow> Some t)"
  by (simp add: BuildImage_def cancelBuild_def certificate_stage_StartTime Let_def
      split: option.splits)

lemma ends_stamped_after_run [simp]: "ends_stamped e (after_run rq r) = ends_stamped e r"
  by (simp add: ends_stamped_def split: option.splits)

lemma store_loop_error: "store_loop e name rs acc = Inl err \<Longrightarrow> err = NilPointerPanic"
  by (induction rs arbitrary: acc) (auto split: sum.splits gerror.splits)

lemma ends_stamped_prims [simp]:
  "ends_stamped e (completeBuild e ib c refs)"
  "ends_stamped e (failBuild e ib err)"
  "ends_stamped e (CancelBuild e ib reason)"
  by (simp_all add: ends_stamped_def terminal_phase_def)

lemma bootc_stage_ends: "ends_stamped e (bootc_stage e ib c)"
  by (auto simp: bootc_stage_def cancelBuild_def Let_def ends_stamped_def terminal_phase_def
      dest: store_loop_error split: prod.splits sum.splits option.splits)


lemma container_stage_ends: "ends_stamped e (container_stage e ib)"
  by (simp add: container_stage_def cancelBuild_def bootc_stage_ends Let_def
      split: prod.splits sum.splits)

lemma containerfile_stage_ends: "ends_stamped e (containerfile_stage e ib c k)"
  by (simp add: containerfile_stage_def cancelBuild_def container_stage_ends split: sum.splits)

lemma certificate_stage_ends: "ends_stamped e (certificate_stage e ib)"
  by (simp add: certificate_stage_def cancelBuild_def containerfile_stage_ends
      split: sum.splits option.splits prod.splits)

lemma BuildImage_ends: "ends_stamped e (BuildImage e ib)"
  by (simp add: BuildImage_def cancelBuild_def certificate_stage_ends Let_def)

lemma bootc_stage_nil:
  "result (bootc_stage e ib c) = None \<Longrightarrow>
     Phase (status_of (build (bootc_stage e ib c))) = Some ''Completed''"
  by (auto simp: bootc_stage_def cancelBuild_def Let_def
      split: prod.splits sum.splits option.splits if_splits)

lemma container_stage_nil:
  "result (container_stage e ib) = None \<Longrightarrow>
     Phase (status_of (build (container_stage e ib))) = Some ''Completed''"
  by (auto simp: container_stage_def cancelBuild_def Let_def bootc_stage_nil
      split: prod.splits sum.splits if_splits)

lemma containerfile_stage_nil:
  "result (containerfile_stage e ib c k) = None \<Longrightarrow>
     Phase (status_of (build (containerfile_stage e ib c k))) = Some ''Completed''"
  by (auto simp: containerfile_stage_def cancelBuild_def container_stage_nil
      split: sum.splits if_splits)

lemma certificate_stage_nil:
  "result (certificate_stage e ib) = None \<Longrightarrow>
     Phase (status_of (build (certificate_stage e ib))) = Some ''Completed''"
  by (auto simp: certificate_stage_def cancelBuild_def containerfile_stage_nil
      split: sum.splits option.splits prod.splits if_splits)

lemma BuildImage_nil:
  "result (BuildImage e ib) = None \<Longrightarrow>
     Phase (status_of (build (BuildImage e ib))) = Some ''Completed''"
  by (auto simp: BuildImage_def cancelBuild_def certificate_stage_nil Let_def split: if_splits)

text \<open>
  C9. \<^verbatim>\<open>CancelBuild\<close> never returns \<^verbatim>\<open>nil\<close>: whatever the cluster and the catalog answer,
  its result is an error, and when the final status write succeeds the error is
  \<^verbatim>\<open>build cancelled: <reason>\<close>. A build that ends in phase \<^verbatim>\<open>Cancelled\<close> returns an error
  to the caller of \<^verbatim>\<open>BuildImage\<close>.
\<close>

theorem cancelled_build_returns_error:
  "result (CancelBuild e ib reason) \<noteq> None \<and>
   (replace_status e (build (CancelBuild e ib reason)) = Response 200 \<longrightarrow>
      result (CancelBuild e ib reason) = Some (errorf (''build cancelled: '' @ reason))) \<and>
   (Phase (status_of (build (BuildImage e ib))) = Some ''Cancelled'' \<longrightarrow>
      result (BuildImage e ib) \<noteq> None)"
proof -
  have a: "result (CancelBuild e ib reason) \<noteq> None" by simp
  have b: "replace_status e (build (CancelBuild e ib reason)) = Response 200 \<longrightarrow>
      result (CancelBuild e ib reason) = Some (errorf (''build cancelled: '' @ reason))"
    by (simp add: CancelBuild_def Let_def status_write_error_def)
  have c: "Phase (status_of (build (BuildImage e ib))) = Some ''Cancelled'' \<longrightarrow>
      result (BuildImage e ib) \<noteq> None"
  proof (intro impI notI)
    assume p: "Phase (status_of (build (BuildImage e ib))) = Some ''Cancelled''"
      and r: "result (BuildImage e ib) = None"
    from BuildImage_nil [OF r] p show False by simp
  qed
  from a b c show ?thesis by blast
qed

text \<open>The theorem at a build with the cancel annotation, every call succeeding.\<close>

lemma example_cancelled: "isCancelled example_env at cancel_requested_build"
  by (simp add: isCancelled_def example_env_def cancel_requested_build_def
      annotation_is_true_def)

theorem cancelled_build_returns_error_witness:
  "replace_status example_env (build (CancelBuild example_env cancel_requested_build ''stop''))
     = Response 200 \<and>
   result (CancelBuild example_env cancel_requested_build ''stop'')
     = Some (errorf ''build cancelled: stop'') \<and>
   Phase (status_of (build (BuildImage example_env cancel_requested_build))) = Some ''Cancelled'' \<and>
   result (BuildImage example_env cancel_requested_build) \<noteq> None"
proof -
  have r: "replace_status example_env
      (build (CancelBuild example_env cancel_requested_build ''stop'')) = Response 200"
    by (simp add: example_env_def)
  have p: "Phase (status_of (build (BuildImage example_env cancel_requested_build)))
      = Some ''Cancelled''"
    by (simp add: BuildImage_def example_cancelled cancelBuild_def)
  show ?thesis
    using cancelled_build_returns_error
      [of example_env cancel_requested_build "''stop''"] r p
    by simp
qed

subsection \<open>The disk-image stage\<close>

lemma generateImageName_cong:
  "Metadata ib' = Metadata ib \<Longrightarrow> Spec ib' = Spec ib \<Longrightarrow>
     generateImageName ib' = generateImageName ib"
  by (simp add: generateImageName_def image_tag_def Let_def split: option.splits)

lemma pushed_fields [simp]:
  "Metadata (pushed e ib) = Metadata ib" "Spec (pushed e ib) = Spec ib"
  "BootcImageRefs (status_of (pushed e ib)) = BootcImageRefs (status_of ib)"
  by (simp_all add: pushed_def)

lemma isCancelled_pushed [simp]: "isCancelled e at (pushed e ib) = isCancelled e at ib"
  by (rule isCancelled_Metadata) simp

lemma requested_exports_cong: "Spec ib' = Spec ib \<Longrightarrow> requested_exports ib' = requested_exports ib"
  by (simp add: requested_exports_def)

lemma export_result_cong: "Metadata ib' = Metadata ib \<Longrightarrow> export_result ib' = export_result ib"
  by (simp add: export_result_def fun_eq_iff)

lemma reaches_bootc_run:
  assumes "reaches_bootc e ib"
  shows "build (BuildImage e ib) = build (bootc_stage e (pushed e ib) (generateImageName ib))"
    and "result (BuildImage e ib) = result (bootc_stage e (pushed e ib) (generateImageName ib))"
proof -
  let ?b = "build (updateStatus e ib ''Building'' ''Starting image build process'')"
  have g: "generateImageName ?b = generateImageName ib"
    by (rule generateImageName_cong) simp_all
  obtain ck where ck: "enrollment e ib = Inr ck"
    using assms by (cases "enrollment e ib") (auto simp: reaches_bootc_def)
  obtain cert key where en: "enrollment e ib = Inr (cert, key)"
    using ck by (cases ck) auto
  obtain cf where gen: "generate_containerfile e (Spec ib) cert key = Inr cf"
    using assms en
    by (cases "generate_containerfile e (Spec ib) cert key") (auto simp: reaches_bootc_def)
  have cs: "container_stage e ?b =
      after_run ([DeleteJob (''build-'' @ Name (Metadata ib)),
                  DeleteConfigMap (''containerfile-'' @ Name (Metadata ib))]
                 @ requests (updateStatusWithContainerImage e ?b (generateImageName ib)))
        (bootc_stage e (pushed e ib) (generateImageName ib))"
    using assms by (simp add: container_stage_def reaches_bootc_def BuildAndPushImage_def g
        pushed_def Let_def)
  have cf: "containerfile_stage e ?b cert key = container_stage e ?b"
    using assms gen by (simp add: containerfile_stage_def reaches_bootc_def)
  have ce: "certificate_stage e ?b = container_stage e ?b"
    using assms en cf
    by (auto simp: certificate_stage_def reaches_bootc_def enrollment_def split: option.splits)
  show "build (BuildImage e ib) = build (bootc_stage e (pushed e ib) (generateImageName ib))"
    and "result (BuildImage e ib) = result (bootc_stage e (pushed e ib) (generateImageName ib))"
    using assms by (simp_all add: BuildImage_def reaches_bootc_def Let_def ce cs)
qed

lemma bootc_loop_all:
  "list_all (\<lambda>x. bootc_job e x = JobSucceeded) xs \<Longrightarrow>
     snd (bootc_loop e ib xs acc) = Inr (acc @ map (export_result ib) xs)"
  by (induction xs arbitrary: acc) (simp_all add: buildBootcImage_def Let_def case_prod_unfold)

lemma bootc_loop_some_fail:
  "\<not> list_all (\<lambda>x. bootc_job e x = JobSucceeded) xs \<Longrightarrow>
     \<exists>err. snd (bootc_loop e ib xs acc) = Inl err"
  by (induction xs arbitrary: acc)
     (auto simp: buildBootcImage_def Let_def case_prod_unfold split: job_outcome.splits)

lemma store_legacy_no_panic:
  "storeToLocal io n p t b \<noteq> Inl NilPointerPanic"
  "storeToPVC io n p t v \<noteq> Inl NilPointerPanic"
  "storeToS3 io n p t c \<noteq> Inl NilPointerPanic"
  by (simp_all add: storeToLocal_def storeToPVC_def storeToS3_def errorf_def Let_def
      split: option.splits sum.splits)

lemma StoreBootcImage_no_panic:
  assumes "no_store_panic e"
  shows "StoreBootcImage (config e) (files e) n p t \<noteq> Inl NilPointerPanic"
proof (cases "storage_of (config e)")
  case None
  then show ?thesis by (simp add: StoreBootcImage_def errorf_def)
next
  case (Some storage)
  with assms have s3: "Storage_Type storage = ''s3'' \<longrightarrow> S3 storage \<noteq> None"
    by (simp add: no_store_panic_def)
  show ?thesis
  proof (cases "Storage_Type storage = ''s3''")
    case True
    with s3 obtain c where "S3 storage = Some c" by auto
    with True Some show ?thesis
      by (simp add: StoreBootcImage_def store_legacy_no_panic Let_def)
  next
    case False
    with Some show ?thesis
      by (simp add: StoreBootcImage_def store_legacy_no_panic errorf_def Let_def)
  qed
qed

lemma store_loop_refs:
  assumes "no_store_panic e"
  shows "store_loop e (Name (Metadata ib)) (map (export_result ib) xs) acc =
     Inr (acc @ List.map_filter
       (\<lambda>x. case resolve_export e ib x of
               Inl err \<Rightarrow> None
             | Inr storageRef \<Rightarrow>
                 Some \<lparr>Image_Type = Export_Type x,
                       Image_Architecture = Some (getArchitecture (Export_Architecture x)),
                       StorageRef = Ref_Path storageRef\<rparr>) xs)"
proof (induction xs arbitrary: acc)
  case Nil
  show ?case by simp
next
  case (Cons x xs)
  have np: "resolve_export e ib x \<noteq> Inl NilPointerPanic"
    using StoreBootcImage_no_panic [OF assms] by (simp add: resolve_export_def)
  show ?case
  proof (cases "resolve_export e ib x")
    case (Inl err)
    with np obtain m l where "err = GoError m l" by (cases err) auto
    with Inl Cons show ?thesis
      by (simp add: export_result_def resolve_export_def)
  next
    case (Inr sr)
    with Cons show ?thesis
      by (simp add: export_result_def resolve_export_def)
  qed
qed

lemma BuildBootcImages_loop:
  "snd (BuildBootcImages e ib) = snd (bootc_loop e ib (requested_exports ib) [])"
  by (simp add: BuildBootcImages_def requested_exports_def split: option.splits)

lemma no_exports: "requested_exports ib = [] \<Longrightarrow> all_exports_succeed e ib \<and> stored_refs e ib = []"
  by (simp add: all_exports_succeed_def stored_refs_def)

lemma bootc_stage_outcome:
  assumes nc: "\<not> isCancelled e AtBootc ib" and np: "no_store_panic e"
  shows "Phase (status_of (build (bootc_stage e ib c))) =
           Some (if all_exports_succeed e ib then ''Completed'' else ''Failed'')"
    and "BootcImageRefs (status_of (build (bootc_stage e ib c))) =
           (if all_exports_succeed e ib \<and> stored_refs e ib \<noteq> [] then Some (stored_refs e ib)
            else BootcImageRefs (status_of ib))"
    and "\<not> all_exports_succeed e ib \<Longrightarrow> result (bootc_stage e ib c) \<noteq> None"
    and "CompletionTime (status_of (build (bootc_stage e ib c))) =
           Some (now_at e (if all_exports_succeed e ib then ''Completed'' else ''Failed''))"
proof -
  let ?u = "build (updateStatus e ib ''GeneratingImages'' ''Building bootc disk images'')"
  have re: "requested_exports ?u = requested_exports ib"
    by (rule requested_exports_cong) simp
  have er: "export_result ?u = export_result ib"
    by (rule export_result_cong) simp
  have all3: "Phase (status_of (build (bootc_stage e ib c))) =
           Some (if all_exports_succeed e ib then ''Completed'' else ''Failed'') \<and>
        BootcImageRefs (status_of (build (bootc_stage e ib c))) =
           (if all_exports_succeed e ib \<and> stored_refs e ib \<noteq> [] then Some (stored_refs e ib)
            else BootcImageRefs (status_of ib)) \<and>
        (\<not> all_exports_succeed e ib \<longrightarrow> result (bootc_stage e ib c) \<noteq> None) \<and>
        CompletionTime (status_of (build (bootc_stage e ib c))) =
           Some (now_at e (if all_exports_succeed e ib then ''Completed'' else ''Failed''))"
  proof (cases "requested_exports ib = []")
    case True
    then have "\<not> (case BootcExports (Spec ib) of None \<Rightarrow> False | Some xs \<Rightarrow> 0 < length xs)"
      by (simp add: requested_exports_def split: option.splits)
    with no_exports [OF True, of e] show ?thesis
      by (simp add: bootc_stage_def)
  next
    case False
    then have ex: "(case BootcExports (Spec ib) of None \<Rightarrow> False | Some xs \<Rightarrow> 0 < length xs)"
      by (simp add: requested_exports_def split: option.splits)
    obtain rq out where bb: "BuildBootcImages e ?u = (rq, out)"
      by (cases "BuildBootcImages e ?u") auto
    then have out: "out = snd (bootc_loop e ?u (requested_exports ib) [])"
      using BuildBootcImages_loop [of e ?u] re by simp
    show ?thesis
    proof (cases "all_exports_succeed e ib")
      case True
      then have "out = Inr (map (export_result ib) (requested_exports ib))"
        using out bootc_loop_all [of e "requested_exports ib" ?u "[]"] er
        by (simp add: all_exports_succeed_def)
      moreover have "store_loop e (Name (Metadata ?u))
          (map (export_result ib) (requested_exports ib)) [] = Inr (stored_refs e ib)"
        using store_loop_refs [OF np, of ib "requested_exports ib" "[]"]
        by (simp add: stored_refs_def)
      ultimately show ?thesis
        using True nc ex bb by (simp add: bootc_stage_def Let_def)
    next
      case False
      then obtain err where "out = Inl err"
        using out bootc_loop_some_fail [of e "requested_exports ib" ?u "[]"]
        by (auto simp: all_exports_succeed_def)
      then show ?thesis
        using False nc ex bb by (simp add: bootc_stage_def Let_def)
    qed
  qed
  from all3 show "Phase (status_of (build (bootc_stage e ib c))) =
           Some (if all_exports_succeed e ib then ''Completed'' else ''Failed'')"
    and "BootcImageRefs (status_of (build (bootc_stage e ib c))) =
           (if all_exports_succeed e ib \<and> stored_refs e ib \<noteq> [] then Some (stored_refs e ib)
            else BootcImageRefs (status_of ib))"
    and "\<not> all_exports_succeed e ib \<Longrightarrow> result (bootc_stage e ib c) \<noteq> None"
    and "CompletionTime (status_of (build (bootc_stage e ib c))) =
           Some (now_at e (if all_exports_succeed e ib then ''Completed'' else ''Failed''))"
    by simp_all
qed










text \<open>
  C5, as the code has it. \<^verbatim>\<open>updateStatus\<close> sets the start time only on a transition into
  \<^verbatim>\<open>Building\<close> that finds none; \<^verbatim>\<open>completeBuild\<close>, \<^verbatim>\<open>failBuild\<close> and \<^verbatim>\<open>CancelBuild\<close> set
  the completion time; no operation clears the start time, and the status writes between
  stages keep the completion time. The reset of \<^verbatim>\<open>RebuildImage\<close> clears the phase, the
  message, the container image reference, the disk-image references and the completion time;
  it keeps the start time and the logs. A whole run of \<^verbatim>\<open>BuildImage\<close> keeps a start time that
  was set, sets it at the transition into \<^verbatim>\<open>Building\<close> otherwise, and ends (unless it
  panics) in a terminal phase with the completion time of that transition.
\<close>

theorem status_times:
  "StartTime (status_of (build (updateStatus e ib p m))) =
     (if p = ''Building'' \<and> StartTime (status_of ib) = None then Some (now_at e p)
      else StartTime (status_of ib)) \<and>
   CompletionTime (status_of (build (completeBuild e ib c refs))) = Some (now_at e ''Completed'') \<and>
   CompletionTime (status_of (build (failBuild e ib err))) = Some (now_at e ''Failed'') \<and>
   CompletionTime (status_of (build (CancelBuild e ib reason))) = Some (now_at e ''Cancelled'') \<and>
   StartTime (status_of (build (updateStatusWithContainerImage e ib c))) = StartTime (status_of ib) \<and>
   StartTime (status_of (build (completeBuild e ib c refs))) = StartTime (status_of ib) \<and>
   StartTime (status_of (build (failBuild e ib err))) = StartTime (status_of ib) \<and>
   StartTime (status_of (build (CancelBuild e ib reason))) = StartTime (status_of ib) \<and>
   CompletionTime (status_of (build (updateStatus e ib p m))) = CompletionTime (status_of ib) \<and>
   CompletionTime (status_of (build (updateStatusWithContainerImage e ib c)))
     = CompletionTime (status_of ib) \<and>
   StartTime (status_of (reset_status ib)) = StartTime (status_of ib) \<and>
   Logs (status_of (reset_status ib)) = Logs (status_of ib) \<and>
   CompletionTime (status_of (reset_status ib)) = None \<and>
   Phase (status_of (reset_status ib)) = None \<and>
   Message (status_of (reset_status ib)) = None \<and>
   ContainerImageRef (status_of (reset_status ib)) = None \<and>
   BootcImageRefs (status_of (reset_status ib)) = None \<and>
   StartTime (status_of (build (BuildImage e ib))) =
     (if isCancelled e AtStart ib then StartTime (status_of ib)
      else case StartTime (status_of ib) of
             None \<Rightarrow> Some (now_at e ''Building'')
           | Some t \<Rightarrow> Some t) \<and>
   ends_stamped e (BuildImage e ib)"
  by (simp add: BuildImage_StartTime BuildImage_ends)

text \<open>
  C5 as stated fails: the retry does not zero the start time and the logs. The failed
  build \<^verbatim>\<open>b4\<close>, started at 100, is rebuilt at 1000 and completes: its start time is still 100.
\<close>

theorem rebuild_keeps_start_time_counterexample:
  "StartTime (status_of (reset_status (build_with_exports ''b4'' [] (Some failed_status))))
     = Some 100 \<and>
   Logs (status_of (reset_status (build_with_exports ''b4'' [] (Some failed_status))))
     = Some [''error''] \<and>
   (case RebuildImage rebuild_env ''b4'' of
      Inl err \<Rightarrow> False
    | Inr r \<Rightarrow> Phase (status_of (build r)) = Some ''Completed'' \<and>
        StartTime (status_of (build r)) = Some 100 \<and>
        CompletionTime (status_of (build r)) = Some 1000)"
proof -
  let ?b = "build_with_exports ''b4'' [] (Some failed_status)"
  have r: "RebuildImage rebuild_env ''b4'' = Inr (BuildImage rebuild_env (reset_status ?b))"
    by (simp add: RebuildImage_def rebuild_env_def example_env_def build_with_exports_def)
  have st: "StartTime (status_of ?b) = Some 100" "Logs (status_of ?b) = Some [''error'']"
    by (simp_all add: build_with_exports_def failed_status_def status_of_def)
  have nc: "\<not> isCancelled rebuild_env AtStart (reset_status ?b)"
    by (simp add: isCancelled_def rebuild_env_def example_env_def annotation_is_true_def
        build_with_exports_def)
  have rb: "reaches_bootc rebuild_env (reset_status ?b)"
    by (simp add: reaches_bootc_def isCancelled_def annotation_is_true_def enrollment_def
        rebuild_env_def example_env_def build_with_exports_def reset_status_def)
  have np: "no_store_panic rebuild_env"
    by (simp add: no_store_panic_def storage_of_def rebuild_env_def example_env_def
        example_config_def example_pvc_storage_def)
  have nb: "\<not> isCancelled rebuild_env AtBootc (pushed rebuild_env (reset_status ?b))"
    using rb by (simp add: reaches_bootc_def)
  have ae: "all_exports_succeed rebuild_env (pushed rebuild_env (reset_status ?b))"
    by (simp add: all_exports_succeed_def requested_exports_def build_with_exports_def
        reset_status_def)
  have ph: "Phase (status_of (build (BuildImage rebuild_env (reset_status ?b))))
      = Some ''Completed''"
    using bootc_stage_outcome(1) [OF nb np, of "generateImageName (reset_status ?b)"]
      reaches_bootc_run(1) [OF rb] ae
    by simp
  have "CompletionTime (status_of (build (BuildImage rebuild_env (reset_status ?b))))
      = Some (now_at rebuild_env ''Completed'')"
    using bootc_stage_outcome(4) [OF nb np, of "generateImageName (reset_status ?b)"]
      reaches_bootc_run(1) [OF rb] ae
    by simp
  then have ct: "CompletionTime (status_of (build (BuildImage rebuild_env (reset_status ?b))))
      = Some 1000"
    by (simp add: rebuild_env_def example_env_def)
  show ?thesis
    using r st nc ph ct BuildImage_StartTime [of rebuild_env "reset_status ?b"]
    by simp
qed

subsection \<open>The build manager\<close>

lemma dispatched_append: "dispatched (a @ b) = dispatched a @ dispatched b"
  by (induction a rule: dispatched.induct) simp_all

lemma without_retry_fields [simp]:
  "Name (Metadata (without_retry ib)) = Name (Metadata ib)"
  "Status (without_retry ib) = Status ib" "Spec (without_retry ib) = Spec ib"
  by (simp_all add: without_retry_def)

lemma should_exclusive: "shouldRetryBuild ib \<Longrightarrow> \<not> shouldProcessBuild ib \<and> \<not> shouldCancelBuild ib"
  by (auto simp: shouldRetryBuild_def shouldProcessBuild_def shouldCancelBuild_def
      split: option.splits if_splits)

lemma handleCancellation_dispatched: "dispatched (snd (handleCancellation bm now ib)) = []"
  by (simp add: handleCancellation_def Let_def split: option.splits)

lemma process_build_dispatched:
  "dispatched (snd (process_build bm now ib)) =
     (if shouldProcessBuild ib \<or> shouldRetryBuild ib then [Name (Metadata ib)] else [])"
  using should_exclusive [of ib]
  by (auto simp: process_build_def Let_def case_prod_unfold dispatched_append handleRetry_def
      handleCancellation_dispatched)

lemma process_builds_dispatched:
  "dispatched (snd (process_builds bm now items)) =
     map (\<lambda>ib. Name (Metadata ib))
       (filter (\<lambda>ib. shouldProcessBuild ib \<or> shouldRetryBuild ib) items)"
  by (induction items arbitrary: bm)
     (simp_all add: case_prod_unfold dispatched_append process_build_dispatched)

lemma process_orgs_dispatched:
  "dispatched (snd (process_orgs bm now orgs)) =
     map (\<lambda>ib. Name (Metadata ib))
       (filter (\<lambda>ib. shouldProcessBuild ib \<or> shouldRetryBuild ib) (listed orgs))"
  by (induction orgs arbitrary: bm)
     (simp_all add: case_prod_unfold dispatched_append process_builds_dispatched listed_def
        processPendingBuildsForOrg_def split: sum.splits)

lemma tick_dispatched:
  "dispatched (snd (ProcessPendingBuilds bm now (Inr orgs))) =
     map (\<lambda>ib. Name (Metadata ib))
       (filter (\<lambda>ib. shouldProcessBuild ib \<or> shouldRetryBuild ib) (listed orgs))"
  by (simp add: ProcessPendingBuilds_def Let_def process_orgs_dispatched)

text \<open>
  C2, as the code has it. The build manager keeps no set of builds in flight: its only
  memory is the map of recent cancellations. On every tick it starts one Orchestrator task
  for each build it lists with no phase, an empty phase or phase \<^verbatim>\<open>Pending\<close>, and one for
  each build it lists in phase \<^verbatim>\<open>Failed\<close> with the retry annotation, whatever it started on
  earlier ticks.
\<close>

theorem every_tick_dispatches_pending:
  "dispatched (snd (ProcessPendingBuilds bm now (Inr orgs))) =
     map (\<lambda>ib. Name (Metadata ib))
       (filter (\<lambda>ib. shouldProcessBuild ib \<or> shouldRetryBuild ib) (listed orgs))"
  by (rule tick_dispatched)

text \<open>
  C2 as stated fails: two consecutive ticks, ten seconds apart, that both list the build
  \<^verbatim>\<open>b\<close> in phase \<^verbatim>\<open>Pending\<close> each start an Orchestrator task for it.
\<close>

theorem second_tick_dispatches_again_counterexample:
  "shouldProcessBuild (build_in_phase ''b'' ''Pending'' None) \<and>
   dispatched (snd (ProcessPendingBuilds NewBuildManager 0 pending_catalog)) = [''b''] \<and>
   dispatched (snd (ProcessPendingBuilds
                      (fst (ProcessPendingBuilds NewBuildManager 0 pending_catalog))
                      (10 * second) pending_catalog)) = [''b'']"
  by (simp add: pending_catalog_def tick_dispatched listed_def list_image_builds_def
      shouldProcessBuild_def shouldRetryBuild_def phase_of_def build_in_phase_def)

lemma requests_prims:
  "list_all (\<lambda>r. \<not> touches_retry r) (requests (updateStatus e ib p m))"
  "list_all (\<lambda>r. \<not> touches_retry r) (requests (updateStatusWithContainerImage e ib c))"
  "list_all (\<lambda>r. \<not> touches_retry r) (requests (completeBuild e ib c refs))"
  "list_all (\<lambda>r. \<not> touches_retry r) (requests (failBuild e ib err))"
  "list_all (\<lambda>r. \<not> touches_retry r) (requests (CancelBuild e ib reason))"
  by (auto simp: updateStatus_def updateStatusWithContainerImage_def completeBuild_def
      failBuild_def CancelBuild_def Let_def list_all_iff split: sum.splits)

lemma bootc_loop_requests:
  "list_all (\<lambda>r. \<not> touches_retry r) (fst (bootc_loop e ib xs acc))"
  by (induction xs arbitrary: acc)
     (auto simp: buildBootcImage_def Let_def case_prod_unfold split: job_outcome.splits)

lemma BuildBootcImages_requests:
  "list_all (\<lambda>r. \<not> touches_retry r) (fst (BuildBootcImages e ib))"
  by (simp add: BuildBootcImages_def bootc_loop_requests split: option.splits)

lemma BuildAndPushImage_requests:
  "list_all (\<lambda>r. \<not> touches_retry r) (fst (BuildAndPushImage e ib))"
  by (simp add: BuildAndPushImage_def Let_def split: job_outcome.splits)

lemma bootc_stage_requests:
  "list_all (\<lambda>r. \<not> touches_retry r) (requests (bootc_stage e ib c))"
proof -
  let ?u = "updateStatus e ib ''GeneratingImages'' ''Building bootc disk images''"
  obtain rq out where bb: "BuildBootcImages e (build ?u) = (rq, out)"
    by (cases "BuildBootcImages e (build ?u)") auto
  have rq: "list_all (\<lambda>r. \<not> touches_retry r) rq"
    using BuildBootcImages_requests [of e "build ?u"] bb by simp
  show ?thesis
    using rq bb requests_prims
    by (simp add: bootc_stage_def cancelBuild_def Let_def split: sum.splits)
qed

lemma container_stage_requests:
  "list_all (\<lambda>r. \<not> touches_retry r) (requests (container_stage e ib))"
proof -
  obtain rq out where bb: "BuildAndPushImage e ib = (rq, out)"
    by (cases "BuildAndPushImage e ib") auto
  have rq: "list_all (\<lambda>r. \<not> touches_retry r) rq"
    using BuildAndPushImage_requests [of e ib] bb by simp
  show ?thesis
    using rq bb requests_prims bootc_stage_requests
    by (simp add: container_stage_def cancelBuild_def Let_def split: sum.splits)
qed

lemma containerfile_stage_requests:
  "list_all (\<lambda>r. \<not> touches_retry r) (requests (containerfile_stage e ib c k))"
  using requests_prims container_stage_requests
  by (simp add: containerfile_stage_def cancelBuild_def split: sum.splits)

lemma certificate_stage_requests:
  "list_all (\<lambda>r. \<not> touches_retry r) (requests (certificate_stage e ib))"
  using requests_prims containerfile_stage_requests
  by (simp add: certificate_stage_def cancelBuild_def split: sum.splits option.splits prod.splits)

lemma BuildImage_requests:
  "list_all (\<lambda>r. \<not> touches_retry r) (requests (BuildImage e ib))"
  using requests_prims certificate_stage_requests
  by (simp add: BuildImage_def cancelBuild_def Let_def)

text \<open>
  C4. For a failed build listed with the retry annotation, the build manager removes the
  annotation from the listed copy only and starts the build with that copy; it sends
  nothing to the catalog, and no request of the build it starts removes the retry
  annotation. (The cancel annotation, in contrast, is removed by a patch in \<^verbatim>\<open>CancelBuild\<close>.)
\<close>

theorem retry_annotation_not_patched:
  assumes "shouldRetryBuild ib"
  shows "snd (process_build bm now ib) = [GoProcessBuild (without_retry ib)] \<and>
         \<not> annotation_is_true (without_retry ib) retry_annotation \<and>
         list_all (\<lambda>r. \<not> touches_retry r) (requests (BuildImage e (without_retry ib)))"
proof -
  have "snd (process_build bm now ib) = [GoProcessBuild (without_retry ib)]"
    using assms should_exclusive [OF assms]
    by (simp add: process_build_def handleRetry_def Let_def)
  moreover have "\<not> annotation_is_true (without_retry ib) retry_annotation"
    by (simp add: annotation_is_true_def without_retry_def split: option.splits)
  ultimately show ?thesis using BuildImage_requests by simp
qed

text \<open>
  The theorem at the failed build \<^verbatim>\<open>b4\<close> with \<^verbatim>\<open>retry=true\<close>.
\<close>

theorem retry_annotation_not_patched_witness:
  "shouldRetryBuild retry_requested_build \<and>
   snd (process_build NewBuildManager 0 retry_requested_build)
     = [GoProcessBuild (without_retry retry_requested_build)] \<and>
   list_all (\<lambda>r. \<not> touches_retry r)
     (requests (BuildImage example_env (without_retry retry_requested_build)))"
proof -
  have h: "shouldRetryBuild retry_requested_build"
    by (simp add: shouldRetryBuild_def retry_requested_build_def build_in_phase_def phase_of_def
        annotation_is_true_def)
  show ?thesis
    using retry_annotation_not_patched [OF h, of NewBuildManager 0 example_env] h by simp
qed

subsection \<open>The cleanup manager\<close>















subsection \<open>The upload endpoint\<close>









lemma http_Error_fields [simp]:
  "Status_Code (http_Error m c) = c" "Effects (http_Error m c) = []"
  by (simp_all add: http_Error_def)






end
